theory Spec2Isabelle
  imports Complex_Main "HOL-Library.Char_ord" "HOL-Library.List_Lexorder" "HOL-Library.AList"
begin

section \<open>Python values, exceptions and the effect type\<close>

text \<open>
  The cache of \<^verbatim>\<open>app.py\<close> stores arbitrary Python objects and derives its keys from their
  string forms, so the model has one type of Python values. Dictionaries keep their
  insertion order (an association list with distinct keys); every dictionary of the
  program is keyed by strings. A Python float is the real number it denotes. The
  arithmetic of the risk index rounds every result to binary64 (\<open>fl\<close> below); the forecast,
  the status labels and the statistics are computed exactly, and nothing proved about
  them depends on the digits of a computed value. \<open>PObj cls ident\<close> is
  an object of a user class, known by its class name and identity (the analyzer
  \<^verbatim>\<open>self\<close>).
\<close>

datatype pyval =
    PNone
  | PBool bool
  | PInt int
  | PFloat real
  | PStr string
  | PList "pyval list"
  | PTuple "pyval list"
  | PDict "(string \<times> pyval) list"
  | PObj string nat

text \<open>Exceptions are values; \<open>exn_str\<close> is Python's \<^verbatim>\<open>str(e)\<close>.\<close>

datatype exn =
    KeyError string
  | TypeError string
  | AttributeError string
  | IndexError string
  | FileNotFoundError string
  | PicklingError string
  | UnpicklingError string
  | RemoteError string
  | ZeroDivisionError string

fun exn_str :: "exn \<Rightarrow> string" where
  "exn_str (KeyError k) = CHR 0x27 # k @ [CHR 0x27]"
| "exn_str (TypeError m) = m"
| "exn_str (AttributeError m) = m"
| "exn_str (IndexError m) = m"
| "exn_str (FileNotFoundError m) = m"
| "exn_str (PicklingError m) = m"
| "exn_str (UnpicklingError m) = m"
| "exn_str (RemoteError m) = m"
| "exn_str (ZeroDivisionError m) = m"

fun type_name :: "pyval \<Rightarrow> string" where
  "type_name PNone = ''NoneType''"
| "type_name (PBool b) = ''bool''"
| "type_name (PInt n) = ''int''"
| "type_name (PFloat x) = ''float''"
| "type_name (PStr s) = ''str''"
| "type_name (PList xs) = ''list''"
| "type_name (PTuple xs) = ''tuple''"
| "type_name (PDict d) = ''dict''"
| "type_name (PObj cls ident) = cls"

section \<open>The world: clock, cache directory, counters\<close>

text \<open>
  A file of \<^verbatim>\<open>cache/data\<close> has a modification time and its bytes; a file of
  \<^verbatim>\<open>cache/metadata\<close> holds the JSON object written by \<^verbatim>\<open>SmartCache.set\<close>. Each directory is
  a listing of file names with distinct names. \<open>now\<close> is the clock read by \<^verbatim>\<open>time.time()\<close>
  and \<^verbatim>\<open>datetime.now()\<close>, \<open>rng_pos\<close> the number of draws made from numpy's global generator.
  The age of an entry is measured from the modification time of its data file, as
  \<^verbatim>\<open>is_cache_valid\<close> does; the \<^verbatim>\<open>timestamp\<close> of the metadata is not read back by the program.

  The operations of the model take no time: the clock moves only by \<open>tick\<close>, or inside an
  operation passed as a parameter. What the program prints is not modelled; an expression
  evaluated only to be printed appears where it can raise.
\<close>

record cache_file =
  mtime :: real
  content :: string

record metadata =
  meta_key :: string
  timestamp :: real
  size_bytes :: nat
  data_type :: string

record cache_stats =
  hits :: nat
  misses :: nat
  saves :: nat
  errors :: nat

record world =
  now :: real
  rng_pos :: nat
  default_ttl :: real
  stats :: cache_stats
  data_dir :: "(string \<times> cache_file) list"
  meta_dir :: "(string \<times> metadata) list"

text \<open>A Python function: it reads and changes the world, and returns or raises.\<close>

type_synonym 'a py = "world \<Rightarrow> (exn + 'a) \<times> world"

definition return_py :: "'a \<Rightarrow> 'a py" where
  "return_py a w = (Inr a, w)"

definition raise_py :: "exn \<Rightarrow> 'a py" where
  "raise_py e w = (Inl e, w)"

definition bind_py :: "'a py \<Rightarrow> ('a \<Rightarrow> 'b py) \<Rightarrow> 'b py" where
  "bind_py m f w = (case m w of (Inl e, w') \<Rightarrow> (Inl e, w') | (Inr a, w') \<Rightarrow> f a w')"

definition lift_py :: "exn + 'a \<Rightarrow> 'a py" where
  "lift_py r w = (r, w)"

text \<open>\<^verbatim>\<open>try: m  except Exception as e: h(e)\<close>\<close>

definition try_except :: "'a py \<Rightarrow> (exn \<Rightarrow> 'a py) \<Rightarrow> 'a py" where
  "try_except m h w = (case m w of (Inl e, w') \<Rightarrow> h e w' | (Inr a, w') \<Rightarrow> (Inr a, w'))"

definition tick :: "real \<Rightarrow> world \<Rightarrow> world" where
  "tick d w = w\<lparr>now := now w + d\<rparr>"

section \<open>External collaborators\<close>

text \<open>
  Library and remote functions the program calls but does not define are parameters:
  \<^verbatim>\<open>str\<close>, \<^verbatim>\<open>hashlib.md5(..).hexdigest()\<close>, \<^verbatim>\<open>pickle.dumps\<close> and \<^verbatim>\<open>pickle.loads\<close> (\<open>None\<close> when they
  raise), the calendar fields of \<^verbatim>\<open>datetime.now() + timedelta(days=i)\<close>, numpy's random
  draws, and the Earth Engine queries of the two fetchers (the reduced statistics, a
  number or null per name, and the image count).
\<close>

record caldate =
  tm_yday :: nat
  month :: nat
  ymd :: string
  weekday_full :: string
  weekday_abbr :: string
  isoformat :: string

record ext =
  py_str :: "pyval \<Rightarrow> string"
  md5_hexdigest :: "string \<Rightarrow> string"
  pickle_dumps :: "pyval \<Rightarrow> string option"
  pickle_loads :: "string \<Rightarrow> pyval option"
  calendar :: "real \<Rightarrow> int \<Rightarrow> caldate"
  np_random :: "nat \<Rightarrow> real"
  modis_reduce :: "string \<Rightarrow> string \<Rightarrow> ((string \<times> real option) list) py"
  modis_size :: "string \<Rightarrow> string \<Rightarrow> int py"
  landsat_reduce :: "string \<Rightarrow> string \<Rightarrow> ((string \<times> real option) list) py"
  landsat_size :: "string \<Rightarrow> string \<Rightarrow> int py"

section \<open>SmartCache\<close>

definition incr_hits :: "world \<Rightarrow> world" where
  "incr_hits w = w\<lparr>stats := (stats w)\<lparr>hits := hits (stats w) + 1\<rparr>\<rparr>"

definition incr_misses :: "world \<Rightarrow> world" where
  "incr_misses w = w\<lparr>stats := (stats w)\<lparr>misses := misses (stats w) + 1\<rparr>\<rparr>"

definition incr_saves :: "world \<Rightarrow> world" where
  "incr_saves w = w\<lparr>stats := (stats w)\<lparr>saves := saves (stats w) + 1\<rparr>\<rparr>"

definition incr_errors :: "world \<Rightarrow> world" where
  "incr_errors w = w\<lparr>stats := (stats w)\<lparr>errors := errors (stats w) + 1\<rparr>\<rparr>"

text \<open>
  \<^verbatim>\<open>content = str(args) + str(sorted(kwargs.items()))\<close>: the positional arguments as a
  tuple, the keyword items as a list of pairs sorted by name (the names of a dictionary
  are distinct, so the comparison of two items is decided by their names).
\<close>

definition generate_cache_key :: "ext \<Rightarrow> pyval list \<Rightarrow> (string \<times> pyval) list \<Rightarrow> string" where
  "generate_cache_key X args kwargs =
     (let content = py_str X (PTuple args)
                    @ py_str X (PList (map (\<lambda>(k, v). PTuple [PStr k, v]) (sort_key fst kwargs)))
      in md5_hexdigest X content)"

text \<open>The file name of a key inside its directory (\<^verbatim>\<open>data\<close> or \<^verbatim>\<open>metadata\<close>).\<close>

definition get_cache_path :: "string \<Rightarrow> string" where
  "get_cache_path cache_key = cache_key @ ''.pkl''"

text \<open>\<^verbatim>\<open>a or b\<close> on an optional number: \<open>None\<close> and zero are both falsy.\<close>

definition or_default :: "real option \<Rightarrow> real \<Rightarrow> real" where
  "or_default a b = (case a of None \<Rightarrow> b | Some t \<Rightarrow> if t \<noteq> 0 then t else b)"

definition is_cache_valid :: "string \<Rightarrow> real option \<Rightarrow> world \<Rightarrow> bool" where
  "is_cache_valid cache_path ttl_seconds w =
     (case map_of (data_dir w) cache_path of
        None \<Rightarrow> False
      | Some f \<Rightarrow>
          (let ttl = or_default ttl_seconds (default_ttl w);
               file_age = now w - mtime f
           in file_age < ttl))"

text \<open>The body of the \<^verbatim>\<open>try\<close> of \<^verbatim>\<open>get\<close>, then \<^verbatim>\<open>get\<close> with its handler.\<close>

definition get_try :: "ext \<Rightarrow> string \<Rightarrow> real option \<Rightarrow> pyval py" where
  "get_try X cache_key ttl_minutes w =
     (let ttl_seconds = (case ttl_minutes of
                           None \<Rightarrow> None
                         | Some m \<Rightarrow> if m \<noteq> 0 then Some (m * 60) else None);
          cache_path = get_cache_path cache_key
      in if is_cache_valid cache_path ttl_seconds w then
           (case map_of (data_dir w) cache_path of
              None \<Rightarrow> (Inl (FileNotFoundError cache_path), w)
            | Some f \<Rightarrow>
                (case pickle_loads X (content f) of
                   None \<Rightarrow> (Inl (UnpicklingError cache_path), w)
                 | Some data \<Rightarrow> (Inr data, incr_hits w)))
         else (Inr PNone, incr_misses w))"

definition get :: "ext \<Rightarrow> string \<Rightarrow> real option \<Rightarrow> pyval py" where
  "get X cache_key ttl_minutes =
     try_except (get_try X cache_key ttl_minutes) (\<lambda>e w. (Inr PNone, incr_errors w))"

text \<open>
  \<^verbatim>\<open>set\<close>: opening the data file for writing creates or truncates it before
  \<^verbatim>\<open>pickle.dump\<close> runs, so a failed dump leaves an empty file with a fresh modification
  time. The metadata file is written after the data file.
\<close>

definition set_try :: "ext \<Rightarrow> string \<Rightarrow> pyval \<Rightarrow> pyval py" where
  "set_try X cache_key data w =
     (let cache_path = get_cache_path cache_key
      in case pickle_dumps X data of
           None \<Rightarrow>
             (Inl (PicklingError (type_name data)),
              w\<lparr>data_dir := AList.update cache_path \<lparr>mtime = now w, content = []\<rparr> (data_dir w)\<rparr>)
         | Some bytes \<Rightarrow>
             (let w1 = w\<lparr>data_dir :=
                          AList.update cache_path \<lparr>mtime = now w, content = bytes\<rparr> (data_dir w)\<rparr>;
                  metadata = \<lparr>meta_key = cache_key, timestamp = now w,
                              size_bytes = length bytes, data_type = type_name data\<rparr>;
                  metadata_path = get_cache_path cache_key;
                  w2 = w1\<lparr>meta_dir := AList.update metadata_path metadata (meta_dir w1)\<rparr>
              in (Inr PNone, incr_saves w2)))"

definition set_cache :: "ext \<Rightarrow> string \<Rightarrow> pyval \<Rightarrow> pyval py" where
  "set_cache X cache_key data =
     try_except (set_try X cache_key data) (\<lambda>e w. (Inr PNone, incr_errors w))"

text \<open>
  \<^verbatim>\<open>clear_expired\<close>: the loop over the listing of \<^verbatim>\<open>cache/data\<close>, taken when the loop starts.
  Removing a listed file does not fail in this model of the directory.
\<close>

definition endswith :: "string \<Rightarrow> string \<Rightarrow> bool" where
  "endswith s suffix = (length suffix \<le> length s \<and> drop (length s - length suffix) s = suffix)"

fun clear_loop :: "string list \<Rightarrow> world \<Rightarrow> nat \<Rightarrow> nat \<times> world" where
  "clear_loop [] w cleared = (cleared, w)"
| "clear_loop (filename # rest) w cleared =
     (if endswith filename ''.pkl'' then
        (if \<not> is_cache_valid filename None w then
           clear_loop rest
             (w\<lparr>data_dir := AList.delete filename (data_dir w),
                meta_dir := AList.delete filename (meta_dir w)\<rparr>)
             (cleared + 1)
         else clear_loop rest w cleared)
      else clear_loop rest w cleared)"

definition clear_expired :: "world \<Rightarrow> nat \<times> world" where
  "clear_expired w = clear_loop (map fst (data_dir w)) w 0"

section \<open>The memoizing decorator\<close>

text \<open>
  \<^verbatim>\<open>cached_operation(ttl_minutes)(func)\<close> applied to \<^verbatim>\<open>*args, **kwargs\<close>. The key is derived
  from \<^verbatim>\<open>func.__name__\<close> followed by the arguments. \<^verbatim>\<open>cache.set\<close> is called inside the
  \<^verbatim>\<open>try\<close>; the handler re-raises.
\<close>

definition cached_operation ::
  "ext \<Rightarrow> real \<Rightarrow> string \<Rightarrow> (pyval list \<Rightarrow> (string \<times> pyval) list \<Rightarrow> pyval py)
     \<Rightarrow> pyval list \<Rightarrow> (string \<times> pyval) list \<Rightarrow> pyval py" where
  "cached_operation X ttl_minutes func_name func args kwargs =
     (let cache_key = generate_cache_key X (PStr func_name # args) kwargs
      in bind_py (get X cache_key (Some ttl_minutes)) (\<lambda>cached_result.
           if cached_result \<noteq> PNone then return_py cached_result
           else try_except
                  (bind_py (func args kwargs) (\<lambda>result.
                   bind_py (set_cache X cache_key result) (\<lambda>_.
                   return_py result)))
                  (\<lambda>e. raise_py e)))"

section \<open>Helpers for Python expressions\<close>

definition bind_exn :: "exn + 'a \<Rightarrow> ('a \<Rightarrow> exn + 'b) \<Rightarrow> exn + 'b" where
  "bind_exn r f = (case r of Inl e \<Rightarrow> Inl e | Inr a \<Rightarrow> f a)"

text \<open>\<^verbatim>\<open>d[k]\<close> on a dictionary, and on an arbitrary value.\<close>

definition dict_subscript :: "(string \<times> pyval) list \<Rightarrow> string \<Rightarrow> exn + pyval" where
  "dict_subscript items k = (case map_of items k of None \<Rightarrow> Inl (KeyError k) | Some v \<Rightarrow> Inr v)"

definition subscript :: "pyval \<Rightarrow> string \<Rightarrow> exn + pyval" where
  "subscript d k =
     (case d of PDict items \<Rightarrow> dict_subscript items k
      | _ \<Rightarrow> Inl (TypeError (type_name d)))"

text \<open>\<^verbatim>\<open>**d\<close> inside a dictionary display needs a mapping.\<close>

definition dict_items :: "pyval \<Rightarrow> exn + (string \<times> pyval) list" where
  "dict_items d = (case d of PDict items \<Rightarrow> Inr items | _ \<Rightarrow> Inl (TypeError (type_name d)))"

text \<open>Later items overwrite earlier ones in place; new keys are appended.\<close>

definition dict_merge :: "(string \<times> pyval) list \<Rightarrow> (string \<times> pyval) list \<Rightarrow> (string \<times> pyval) list" where
  "dict_merge acc items = fold (\<lambda>(k, v). AList.update k v) items acc"

text \<open>A value used as a number in arithmetic or in a comparison with a number.\<close>

definition as_real :: "pyval \<Rightarrow> exn + real" where
  "as_real v =
     (case v of PFloat x \<Rightarrow> Inr x
      | PInt n \<Rightarrow> Inr (of_int n)
      | PBool b \<Rightarrow> Inr (if b then 1 else 0)
      | _ \<Rightarrow> Inl (TypeError (type_name v)))"

subsection \<open>Binary64 arithmetic\<close>

text \<open>
  Python's \<^verbatim>\<open>float\<close> is IEEE 754 binary64: 53 significant bits, results rounded to nearest
  with ties to even. \<open>fl x\<close> is the double nearest to the real \<open>x\<close>: \<open>exponent_of\<close> finds
  \<open>e\<close> with \<open>2^e \<le> \<bar>x\<bar> < 2^(e+1)\<close> by halving or doubling (the fuel covers the exponents of
  all finite doubles), the spacing of the doubles around \<open>x\<close> is \<open>2^(e-52)\<close>, and not less
  than \<open>2^-1074\<close> for the subnormal ones. A decimal literal of the program denotes \<open>fl\<close> of
  its value. Overflow to infinity and NaN are outside the model.
\<close>

fun exponent_of :: "nat \<Rightarrow> real \<Rightarrow> int" where
  "exponent_of 0 x = 0"
| "exponent_of (Suc fuel) x =
     (if 2 \<le> x then exponent_of fuel (x / 2) + 1
      else if x < 1 then exponent_of fuel (x * 2) - 1
      else 0)"

definition pow2 :: "int \<Rightarrow> real" where
  "pow2 q = (if 0 \<le> q then 2 ^ nat q else 1 / 2 ^ nat (- q))"

definition round_half_even :: "real \<Rightarrow> int" where
  "round_half_even y =
     (let f = \<lfloor>y\<rfloor>; d = y - of_int f
      in if d < 1 / 2 then f
         else if 1 / 2 < d then f + 1
         else if even f then f else f + 1)"

definition fl :: "real \<Rightarrow> real" where
  "fl x =
     (if x = 0 then 0
      else (let e = exponent_of 1100 \<bar>x\<bar>;
                q = max (e - 52) (- 1074)
            in of_int (round_half_even (x / pow2 q)) * pow2 q))"

text \<open>
  A number is an \<^verbatim>\<open>int\<close> (or a \<^verbatim>\<open>bool\<close>, which is one) or a \<^verbatim>\<open>float\<close>. Arithmetic on two ints is
  exact and gives an int, except true division, which gives the correctly rounded
  quotient; with a float operand, the int operand is converted and the result rounded.
  Comparisons between numbers are exact. \<^verbatim>\<open>max(a, b)\<close> and \<^verbatim>\<open>min(a, b)\<close> return \<open>a\<close> unless \<open>b\<close>
  is strictly greater, respectively smaller.
\<close>

datatype pynum = NInt int | NFloat real

definition as_num :: "pyval \<Rightarrow> exn + pynum" where
  "as_num v =
     (case v of PFloat x \<Rightarrow> Inr (NFloat x)
      | PInt n \<Rightarrow> Inr (NInt n)
      | PBool b \<Rightarrow> Inr (NInt (if b then 1 else 0))
      | _ \<Rightarrow> Inl (TypeError (type_name v)))"

fun num_real :: "pynum \<Rightarrow> real" where
  "num_real (NInt n) = of_int n"
| "num_real (NFloat x) = x"

fun to_float :: "pynum \<Rightarrow> real" where
  "to_float (NInt n) = fl (of_int n)"
| "to_float (NFloat x) = x"

fun num_add :: "pynum \<Rightarrow> pynum \<Rightarrow> pynum" where
  "num_add (NInt m) (NInt n) = NInt (m + n)"
| "num_add a b = NFloat (fl (to_float a + to_float b))"

fun num_sub :: "pynum \<Rightarrow> pynum \<Rightarrow> pynum" where
  "num_sub (NInt m) (NInt n) = NInt (m - n)"
| "num_sub a b = NFloat (fl (to_float a - to_float b))"

fun num_mul :: "pynum \<Rightarrow> pynum \<Rightarrow> pynum" where
  "num_mul (NInt m) (NInt n) = NInt (m * n)"
| "num_mul a b = NFloat (fl (to_float a * to_float b))"

fun num_truediv :: "pynum \<Rightarrow> pynum \<Rightarrow> exn + pynum" where
  "num_truediv (NInt m) (NInt n) =
     (if n = 0 then Inl (ZeroDivisionError ''division by zero'')
      else Inr (NFloat (fl (of_int m / of_int n))))"
| "num_truediv a b =
     (if to_float b = 0 then Inl (ZeroDivisionError ''float division by zero'')
      else Inr (NFloat (fl (to_float a / to_float b))))"

definition num_max :: "pynum \<Rightarrow> pynum \<Rightarrow> pynum" where
  "num_max a b = (if num_real b > num_real a then b else a)"

definition num_min :: "pynum \<Rightarrow> pynum \<Rightarrow> pynum" where
  "num_min a b = (if num_real b < num_real a then b else a)"

text \<open>\<^verbatim>\<open>round(x, ndigits)\<close> on a float, ties to even.\<close>

definition py_round :: "nat \<Rightarrow> real \<Rightarrow> real" where
  "py_round ndigits x =
     (let y = x * 10 ^ ndigits; f = \<lfloor>y\<rfloor>; d = y - of_int f
      in (if d < 1 / 2 then of_int f
          else if 1 / 2 < d then of_int (f + 1)
          else if even f then of_int f else of_int (f + 1)) / 10 ^ ndigits)"

text \<open>\<^verbatim>\<open>xs[i]\<close> for \<open>i \<ge> 0\<close>.\<close>

definition list_get :: "pyval list \<Rightarrow> nat \<Rightarrow> exn + pyval" where
  "list_get xs i = (if i < length xs then Inr (xs ! i) else Inl (IndexError ''list index out of range''))"

definition clock :: "real py" where
  "clock w = (Inr (now w), w)"

definition draw :: "ext \<Rightarrow> real py" where
  "draw X w = (Inr (np_random X (rng_pos w)), w\<lparr>rng_pos := rng_pos w + 1\<rparr>)"

section \<open>Cache statistics\<close>

definition get_stats :: "world \<Rightarrow> pyval" where
  "get_stats w =
     (let total_requests = hits (stats w) + misses (stats w);
          hit_rate = (if total_requests > 0
                      then PFloat (py_round 1 (real (hits (stats w)) / real total_requests * 100))
                      else PInt 0);
          pkl = filter (\<lambda>(filename, f). endswith filename ''.pkl'') (data_dir w);
          cache_size = sum_list (map (\<lambda>(filename, f). length (content f)) pkl);
          cache_files = length pkl
      in PDict [(''hit_rate_percent'', hit_rate),
                (''total_requests'', PInt (int total_requests)),
                (''cache_files'', PInt (int cache_files)),
                (''cache_size_mb'', PFloat (py_round 2 (real cache_size / 1024 / 1024))),
                (''hits'', PInt (int (hits (stats w)))),
                (''misses'', PInt (int (misses (stats w)))),
                (''saves'', PInt (int (saves (stats w)))),
                (''errors'', PInt (int (errors (stats w))))])"

section \<open>TashkentDustAnalyzer: fetchers and risk index\<close>

text \<open>
  \<^verbatim>\<open>float(stats.get(name, 0))\<close> on the dictionary returned by \<^verbatim>\<open>getInfo()\<close>: a missing name
  gives 0, a null value makes \<^verbatim>\<open>float\<close> raise.
\<close>

definition float_of_stat :: "(string \<times> real option) list \<Rightarrow> string \<Rightarrow> exn + real" where
  "float_of_stat reduced name =
     (case map_of reduced name of
        None \<Rightarrow> Inr 0
      | Some None \<Rightarrow> Inl (TypeError ''NoneType'')
      | Some (Some x) \<Rightarrow> Inr x)"

definition get_modis_data_body :: "ext \<Rightarrow> string \<Rightarrow> string \<Rightarrow> pyval py" where
  "get_modis_data_body X start_date end_date =
     bind_py (modis_reduce X start_date end_date) (\<lambda>reduced.
     bind_py (lift_py (float_of_stat reduced ''LST_Day_1km_mean'')) (\<lambda>lst_day_mean.
     bind_py (lift_py (float_of_stat reduced ''LST_Day_1km_stdDev'')) (\<lambda>lst_day_std.
     bind_py (modis_size X start_date end_date) (\<lambda>modis_count.
     return_py (PDict [(''lst_day_mean'', PFloat lst_day_mean),
                       (''lst_day_std'', PFloat lst_day_std),
                       (''modis_count'', PInt modis_count)])))))"

definition get_modis_data :: "ext \<Rightarrow> pyval \<Rightarrow> string \<Rightarrow> string \<Rightarrow> pyval py" where
  "get_modis_data X self start_date end_date =
     cached_operation X 30 ''get_modis_data''
       (\<lambda>args kwargs. get_modis_data_body X start_date end_date)
       [self, PStr start_date, PStr end_date] []"

definition get_landsat_data_body :: "ext \<Rightarrow> string \<Rightarrow> string \<Rightarrow> pyval py" where
  "get_landsat_data_body X start_date end_date =
     bind_py (landsat_reduce X start_date end_date) (\<lambda>reduced.
     bind_py (lift_py (float_of_stat reduced ''NDVI_mean'')) (\<lambda>ndvi_mean.
     bind_py (lift_py (float_of_stat reduced ''NDVI_stdDev'')) (\<lambda>ndvi_std.
     bind_py (lift_py (float_of_stat reduced ''NDDI_mean'')) (\<lambda>nddi_mean.
     bind_py (lift_py (float_of_stat reduced ''NDDI_stdDev'')) (\<lambda>nddi_std.
     bind_py (landsat_size X start_date end_date) (\<lambda>landsat_count.
     return_py (PDict [(''ndvi_mean'', PFloat ndvi_mean),
                       (''ndvi_std'', PFloat ndvi_std),
                       (''nddi_mean'', PFloat nddi_mean),
                       (''nddi_std'', PFloat nddi_std),
                       (''landsat_count'', PInt landsat_count)])))))))"

definition get_landsat_data :: "ext \<Rightarrow> pyval \<Rightarrow> string \<Rightarrow> string \<Rightarrow> pyval py" where
  "get_landsat_data X self start_date end_date =
     cached_operation X 60 ''get_landsat_data''
       (\<lambda>args kwargs. get_landsat_data_body X start_date end_date)
       [self, PStr start_date, PStr end_date] []"

text \<open>
  The body of \<^verbatim>\<open>calculate_dust_risk\<close>: no effect on the world, but it can raise. The
  literals \<^verbatim>\<open>25\<close>, \<^verbatim>\<open>20\<close>, \<^verbatim>\<open>1\<close> and \<^verbatim>\<open>0\<close> are ints, the others doubles; \<^verbatim>\<open>float(x)\<close> converts
  each result.
\<close>

definition risk_level_of :: "pynum \<Rightarrow> string" where
  "risk_level_of dust_risk_index =
     (if num_real dust_risk_index > fl 0.6 then ''high''
      else if num_real dust_risk_index > fl 0.3 then ''moderate''
      else ''low'')"

definition calculate_dust_risk_body :: "pyval \<Rightarrow> pyval \<Rightarrow> exn + pyval" where
  "calculate_dust_risk_body modis_data landsat_data =
     bind_exn (subscript modis_data ''lst_day_mean'') (\<lambda>temperature.
     bind_exn (subscript landsat_data ''ndvi_mean'') (\<lambda>ndvi.
     bind_exn (subscript landsat_data ''nddi_mean'') (\<lambda>nddi.
     bind_exn (as_num temperature) (\<lambda>t.
     bind_exn (num_truediv (num_sub t (NInt 25)) (NInt 20)) (\<lambda>quotient.
     bind_exn (as_num ndvi) (\<lambda>n.
     bind_exn (as_num nddi) (\<lambda>d.
       (let temp_factor = num_max (NInt 0) quotient;
            veg_factor = num_max (NInt 0) (num_sub (NInt 1) n);
            dust_factor = num_max (NInt 0) (num_add d (NFloat (fl 0.1)));
            dust_risk_index =
              num_add (num_add (num_mul (NFloat (fl 0.4)) dust_factor)
                               (num_mul (NFloat (fl 0.3)) temp_factor))
                      (num_mul (NFloat (fl 0.3)) veg_factor);
            dust_risk_index = num_max (NInt 0) (num_min (NInt 1) dust_risk_index);
            risk_level = risk_level_of dust_risk_index
        in Inr (PDict [(''dust_risk_index'', PFloat (to_float dust_risk_index)),
                       (''risk_level'', PStr risk_level),
                       (''temperature_factor'', PFloat (to_float temp_factor)),
                       (''vegetation_factor'', PFloat (to_float veg_factor)),
                       (''dust_factor'', PFloat (to_float dust_factor))])))))))))"

definition calculate_dust_risk :: "ext \<Rightarrow> pyval \<Rightarrow> pyval \<Rightarrow> pyval \<Rightarrow> pyval py" where
  "calculate_dust_risk X self modis_data landsat_data =
     cached_operation X 15 ''calculate_dust_risk''
       (\<lambda>args kwargs. lift_py (calculate_dust_risk_body modis_data landsat_data))
       [self, modis_data, landsat_data] []"

section \<open>TashkentDustAnalyzer: current conditions\<close>

definition assess_conditions :: "(string \<times> pyval) list \<Rightarrow> exn + (string \<times> pyval) list" where
  "assess_conditions conditions =
     bind_exn (bind_exn (dict_subscript conditions ''lst_day_mean'') as_real) (\<lambda>lst.
     bind_exn (bind_exn (dict_subscript conditions ''ndvi_mean'') as_real) (\<lambda>ndvi.
     bind_exn (bind_exn (dict_subscript conditions ''nddi_mean'') as_real) (\<lambda>nddi.
       (let temp_status = (if lst > 35 then ''High'' else if lst > 25 then ''Moderate'' else ''Low'');
            veg_status = (if ndvi < 0.2 then ''Low vegetation''
                          else if ndvi < 0.4 then ''Moderate vegetation''
                          else ''Good vegetation cover'');
            dust_status = (if nddi > 0.15 then ''Elevated dust signature detected''
                           else ''Normal dust levels'')
        in Inr [(''temperature_status'', PStr temp_status),
                (''vegetation_status'', PStr veg_status),
                (''dust_signature_status'', PStr dust_status)]))))"

text \<open>\<^verbatim>\<open>results['risk_level'].upper()\<close> inside the final \<^verbatim>\<open>print\<close>: only its failure matters.\<close>

definition risk_level_upper :: "(string \<times> pyval) list \<Rightarrow> exn + unit" where
  "risk_level_upper results =
     bind_exn (dict_subscript results ''risk_level'') (\<lambda>v.
       case v of PStr s \<Rightarrow> Inr () | _ \<Rightarrow> Inl (AttributeError (type_name v)))"

definition tashkent_coords :: pyval where
  "tashkent_coords = PList [PFloat 69.2401, PFloat 41.2995]"

text \<open>The dictionary display and the statements after it, given the three components.\<close>

definition assemble_results ::
  "ext \<Rightarrow> int \<Rightarrow> real \<Rightarrow> pyval \<Rightarrow> pyval \<Rightarrow> pyval \<Rightarrow> world \<Rightarrow> exn + (string \<times> pyval) list" where
  "assemble_results X days_back start_time modis_data landsat_data risk_data w =
     bind_exn (subscript modis_data ''modis_count'') (\<lambda>modis_count.
     bind_exn (subscript landsat_data ''landsat_count'') (\<lambda>landsat_count.
     bind_exn (dict_items modis_data) (\<lambda>modis_items.
     bind_exn (dict_items landsat_data) (\<lambda>landsat_items.
     bind_exn (dict_items risk_data) (\<lambda>risk_items.
       (let results =
              dict_merge (dict_merge (dict_merge (dict_merge
                [(''timestamp'', PStr (isoformat (calendar X (now w) 0))),
                 (''analysis_period_days'', PInt days_back),
                 (''execution_time_seconds'', PFloat (py_round 2 (now w - start_time))),
                 (''data_sources'',
                    PStr (''MODIS_LST_'' @ py_str X modis_count @ '',Landsat_''
                          @ py_str X landsat_count))]
                modis_items) landsat_items) risk_items)
                [(''location'', PStr ''Tashkent_Uzbekistan''),
                 (''coordinates'', tashkent_coords),
                 (''cache_stats'', get_stats w)]
        in bind_exn (assess_conditions results) (\<lambda>status.
           (let results = dict_merge results status
            in bind_exn (risk_level_upper results) (\<lambda>_. Inr results)))))))))"

definition get_current_conditions_try :: "ext \<Rightarrow> pyval \<Rightarrow> int \<Rightarrow> ((string \<times> pyval) list) py" where
  "get_current_conditions_try X self days_back =
     bind_py clock (\<lambda>start_time.
     bind_py clock (\<lambda>end_date.
       (let start_str = ymd (calendar X end_date (- days_back));
            end_str = ymd (calendar X end_date 0)
        in bind_py (get_modis_data X self start_str end_str) (\<lambda>modis_data.
           bind_py (get_landsat_data X self start_str end_str) (\<lambda>landsat_data.
           bind_py (calculate_dust_risk X self modis_data landsat_data) (\<lambda>risk_data.
             (\<lambda>w. (assemble_results X days_back start_time modis_data landsat_data risk_data w,
                    w))))))))"

definition get_current_conditions :: "ext \<Rightarrow> pyval \<Rightarrow> int \<Rightarrow> ((string \<times> pyval) list) py" where
  "get_current_conditions X self days_back =
     try_except (get_current_conditions_try X self days_back)
       (\<lambda>e w. (Inr [(''error'', PStr (exn_str e)), (''cache_stats'', get_stats w)], w))"

section \<open>TashkentDustAnalyzer: forecast\<close>

definition np_clip :: "real \<Rightarrow> real \<Rightarrow> real \<Rightarrow> real" where
  "np_clip a a_min a_max = min (max a a_min) a_max"

definition forecast_risk_level :: "real \<Rightarrow> string" where
  "forecast_risk_level risk_score =
     (if risk_score > 0.65 then ''high''
      else if risk_score > 0.35 then ''moderate''
      else ''low'')"

definition forecast_confidence :: "nat \<Rightarrow> real" where
  "forecast_confidence i =
     (let confidence = (if i = 0 then 0.95
                        else if i \<le> 2 then 0.85 - (real i * 0.05)
                        else if i \<le> 4 then 0.75 - ((real i - 2) * 0.08)
                        else 0.59 - ((real i - 4) * 0.06))
      in max 0.35 confidence)"

definition forecast_day_name :: "nat \<Rightarrow> caldate \<Rightarrow> string" where
  "forecast_day_name i date =
     (if i = 0 then ''Today'' else if i = 1 then ''Tomorrow'' else weekday_full date)"

definition forecast_tendency :: "nat \<Rightarrow> real \<Rightarrow> pyval list \<Rightarrow> exn + string" where
  "forecast_tendency i risk_score forecast =
     (if i > 0 then
        bind_exn (list_get forecast (i - 1)) (\<lambda>prev.
        bind_exn (subscript prev ''risk_score'') (\<lambda>prev_risk_value.
        bind_exn (as_real prev_risk_value) (\<lambda>prev_risk.
          Inr (if risk_score > prev_risk + 0.1 then ''Increasing''
               else if risk_score < prev_risk - 0.1 then ''Decreasing''
               else ''Stable''))))
      else Inr ''Current'')"

text \<open>One iteration of the loop of \<^verbatim>\<open>generate_forecast\<close>: the dictionary appended for day \<open>i\<close>.\<close>

definition forecast_day :: "ext \<Rightarrow> pyval \<Rightarrow> pyval \<Rightarrow> nat \<Rightarrow> pyval list \<Rightarrow> pyval py" where
  "forecast_day X base_risk base_temp i forecast =
     bind_py clock (\<lambda>t.
       (let date = calendar X t (int i);
            day_of_year = tm_yday date;
            seasonal_factor = sin ((real day_of_year / 365) * 2 * pi) * 0.08;
            weekly_pattern = sin ((real i / 7) * 2 * pi) * 0.05
        in bind_py (draw X) (\<lambda>r1.
          (let random_variation = (r1 - 0.5) * (0.1 + real i * 0.02);
               trend_factor = (if month date \<in> {6, 7, 8, 9} then real i * 0.01 else real i * 0.005)
           in bind_py (lift_py (as_real base_risk)) (\<lambda>base_risk_value.
             (let risk_score = base_risk_value + seasonal_factor + weekly_pattern
                               + random_variation + trend_factor;
                  risk_score = np_clip risk_score 0.05 0.95;
                  risk_level = forecast_risk_level risk_score;
                  temp_seasonal = sin ((real day_of_year / 365) * 2 * pi) * 8
              in bind_py (draw X) (\<lambda>r2.
                (let temp_daily = (r2 - 0.5) * 5;
                     temp_trend = (if month date \<in> {9, 10, 11} then - 0.2 * real i else 0.1 * real i)
                 in bind_py (lift_py (as_real base_temp)) (\<lambda>base_temp_value.
                   (let temperature = base_temp_value + temp_seasonal + temp_daily + temp_trend;
                        temperature = max 15 (min 45 temperature);
                        confidence = forecast_confidence i;
                        day_name = forecast_day_name i date
                    in bind_py (lift_py (forecast_tendency i risk_score forecast)) (\<lambda>tendency.
                         return_py (PDict
                           [(''date'', PStr (ymd date)),
                            (''day_name'', PStr day_name),
                            (''day_short'', PStr (weekday_abbr date)),
                            (''risk_score'', PFloat risk_score),
                            (''risk_level'', PStr risk_level),
                            (''temperature'', PFloat (py_round 1 temperature)),
                            (''confidence'', PFloat confidence),
                            (''tendency'', PStr tendency),
                            (''day_index'', PInt (int i))]))))))))))))"

text \<open>
  \<^verbatim>\<open>for i in range(days)\<close>, appending to \<^verbatim>\<open>forecast\<close>; an exception leaves the loop. The
  average printed after the loop (\<^verbatim>\<open>np.mean\<close>, which warns and yields \<^verbatim>\<open>nan\<close> on an empty
  list) does not raise and is left out.
\<close>

fun forecast_loop :: "ext \<Rightarrow> pyval \<Rightarrow> pyval \<Rightarrow> nat list \<Rightarrow> pyval list \<Rightarrow> (pyval list) py" where
  "forecast_loop X base_risk base_temp [] forecast w = (Inr forecast, w)"
| "forecast_loop X base_risk base_temp (i # rest) forecast w =
     (case forecast_day X base_risk base_temp i forecast w of
        (Inl e, w') \<Rightarrow> (Inl e, w')
      | (Inr day, w') \<Rightarrow> forecast_loop X base_risk base_temp rest (forecast @ [day]) w')"

definition generate_forecast_try :: "ext \<Rightarrow> pyval \<Rightarrow> int \<Rightarrow> pyval py" where
  "generate_forecast_try X self days =
     bind_py (get_current_conditions X self 60) (\<lambda>current.
       case map_of current ''error'' of
         Some reason \<Rightarrow>
           return_py (PList [PDict [(''error'', PStr ''Could not generate forecast''),
                                    (''reason'', reason)]])
       | None \<Rightarrow>
           bind_py (lift_py (dict_subscript current ''dust_risk_index'')) (\<lambda>base_risk.
           bind_py (lift_py (dict_subscript current ''lst_day_mean'')) (\<lambda>base_temp.
           bind_py (lift_py (dict_subscript current ''ndvi_mean'')) (\<lambda>base_ndvi.
           bind_py (forecast_loop X base_risk base_temp [0..<nat days] []) (\<lambda>forecast.
           return_py (PList forecast))))))"

definition generate_forecast_body :: "ext \<Rightarrow> pyval \<Rightarrow> int \<Rightarrow> pyval py" where
  "generate_forecast_body X self days =
     try_except (generate_forecast_try X self days)
       (\<lambda>e. return_py (PList [PDict [(''error'', PStr (exn_str e))]]))"

text \<open>The decorated method, called as the route does: \<^verbatim>\<open>analyzer.generate_forecast(days=N)\<close>.\<close>

definition generate_forecast :: "ext \<Rightarrow> pyval \<Rightarrow> int \<Rightarrow> pyval py" where
  "generate_forecast X self days =
     cached_operation X 120 ''generate_forecast''
       (\<lambda>args kwargs. generate_forecast_body X self days)
       [self] [(''days'', PInt days)]"

section \<open>Notions used to state the properties\<close>

text \<open>
  The TTL in seconds a read applies: \<^verbatim>\<open>get\<close> turns a truthy \<^verbatim>\<open>ttl_minutes\<close> into seconds and
  \<^verbatim>\<open>is_cache_valid\<close> replaces a falsy TTL by the store default.
\<close>

definition effective_ttl :: "real option \<Rightarrow> world \<Rightarrow> real" where
  "effective_ttl ttl_minutes w =
     (case ttl_minutes of
        None \<Rightarrow> default_ttl w
      | Some m \<Rightarrow> if m = 0 then default_ttl w else m * 60)"

text \<open>A file of the data directory that the sweep removes.\<close>

definition expired :: "world \<Rightarrow> string \<Rightarrow> bool" where
  "expired w filename = (endswith filename ''.pkl'' \<and> \<not> is_cache_valid filename None w)"




text \<open>The dictionary returned by \<^verbatim>\<open>get_current_conditions\<close> when its \<^verbatim>\<open>try\<close> fails.\<close>

definition error_envelope :: "exn \<Rightarrow> world \<Rightarrow> (string \<times> pyval) list" where
  "error_envelope e w = [(''error'', PStr (exn_str e)), (''cache_stats'', get_stats w)]"


section \<open>A concrete environment for evaluating the model\<close>

text \<open>
  Stand-ins for the external functions: a printer for \<^verbatim>\<open>str\<close>, the identity for the digest,
  a codebook for pickle (a value outside the codebook cannot be pickled), a fixed
  calendar day, a constant random draw, and a backend that answers, or is down.
\<close>

fun digits :: "nat \<Rightarrow> string" where
  "digits n = (if n < 10 then [''0123456789'' ! n]
               else digits (n div 10) @ [''0123456789'' ! (n mod 10)])"

declare digits.simps [simp del]

fun demo_str :: "pyval \<Rightarrow> string" where
  "demo_str PNone = ''None''"
| "demo_str (PBool b) = (if b then ''True'' else ''False'')"
| "demo_str (PInt n) = (if n < 0 then ''-'' else []) @ digits (nat \<bar>n\<bar>)"
| "demo_str (PFloat x) = (if x < 0 then ''-'' else []) @ digits (nat \<lfloor>\<bar>x\<bar>\<rfloor>) @ ''.''"
| "demo_str (PStr s) = CHR 0x27 # s @ [CHR 0x27]"
| "demo_str (PList xs) = ''['' @ concat (map (\<lambda>v. demo_str v @ '', '') xs) @ '']''"
| "demo_str (PTuple xs) = ''('' @ concat (map (\<lambda>v. demo_str v @ '', '') xs) @ '')''"
| "demo_str (PDict d) =
     ''{'' @ concat (map (\<lambda>p. fst p @ '': '' @ demo_str (snd p) @ '', '') d) @ ''}''"
| "demo_str (PObj cls ident) = ''<'' @ cls @ '' object at '' @ digits ident @ ''>''"

definition demo_error_list :: pyval where
  "demo_error_list =
     PList [PDict [(''error'', PStr ''Could not generate forecast''),
                   (''reason'', PStr ''backend unavailable'')]]"

definition demo_nested :: pyval where
  "demo_nested = PDict [(''a'', PDict [(''b'', PList [PInt 1, PFloat 2.5, PStr ''x''])])]"

text \<open>What the answering backend yields, and the risk computed from it.\<close>

definition demo_modis :: pyval where
  "demo_modis = PDict [(''lst_day_mean'', PFloat 30), (''lst_day_std'', PFloat 2), (''modis_count'', PInt 12)]"

definition demo_landsat :: pyval where
  "demo_landsat = PDict [(''ndvi_mean'', PFloat (fl 0.1)), (''ndvi_std'', PFloat (fl 0.05)),
                         (''nddi_mean'', PFloat (fl 0.2)), (''nddi_std'', PFloat (fl 0.05)),
                         (''landsat_count'', PInt 5)]"

definition demo_risk :: pyval where
  "demo_risk = PDict [(''dust_risk_index'', PFloat (8376695306909123 / 18014398509481984)),
                      (''risk_level'', PStr ''moderate''),
                      (''temperature_factor'', PFloat (1 / 4)),
                      (''vegetation_factor'', PFloat (8106479329266893 / 9007199254740992)),
                      (''dust_factor'', PFloat (1351079888211149 / 4503599627370496))]"

text \<open>
  An input next to a threshold: 20 degrees, no vegetation, and a dust index of
  \<^verbatim>\<open>-0.09999999999999999\<close>, the double just above \<open>-fl 0.1\<close>.
\<close>

definition edge_modis :: pyval where
  "edge_modis = PDict [(''lst_day_mean'', PFloat 20), (''lst_day_std'', PFloat 2), (''modis_count'', PInt 12)]"

definition edge_landsat :: pyval where
  "edge_landsat = PDict [(''ndvi_mean'', PFloat 0), (''ndvi_std'', PFloat 0),
                         (''nddi_mean'', PFloat (- 7205759403792793 / 72057594037927936)),
                         (''nddi_std'', PFloat 0), (''landsat_count'', PInt 5)]"

definition demo_pickles :: "(string \<times> pyval) list" where
  "demo_pickles =
     [(''p0'', PNone), (''p1'', PInt 1), (''p2'', demo_nested), (''p3'', demo_error_list),
      (''p4'', demo_modis), (''p5'', demo_landsat), (''p6'', demo_risk)]"

definition demo_dumps :: "pyval \<Rightarrow> string option" where
  "demo_dumps v = map_of (map (\<lambda>(b, v). (v, b)) demo_pickles) v"

definition demo_loads :: "string \<Rightarrow> pyval option" where
  "demo_loads b = map_of demo_pickles b"

definition demo_calendar :: "real \<Rightarrow> int \<Rightarrow> caldate" where
  "demo_calendar t i =
     \<lparr>tm_yday = 100, month = 4, ymd = ''2025-04-10'', weekday_full = ''Thursday'',
      weekday_abbr = ''Thu'', isoformat = ''2025-04-10T12:00:00''\<rparr>"

definition demo_ext :: ext where
  "demo_ext =
     \<lparr>py_str = demo_str,
      md5_hexdigest = (\<lambda>s. s),
      pickle_dumps = demo_dumps,
      pickle_loads = demo_loads,
      calendar = demo_calendar,
      np_random = (\<lambda>n. 1 / 2),
      modis_reduce = (\<lambda>s e. return_py [(''LST_Day_1km_mean'', Some 30),
                                         (''LST_Day_1km_stdDev'', Some 2)]),
      modis_size = (\<lambda>s e. return_py 12),
      landsat_reduce = (\<lambda>s e. return_py [(''NDVI_mean'', Some (fl 0.1)),
                                           (''NDVI_stdDev'', Some (fl 0.05)),
                                           (''NDDI_mean'', Some (fl 0.2)),
                                           (''NDDI_stdDev'', Some (fl 0.05))]),
      landsat_size = (\<lambda>s e. return_py 5)\<rparr>"

definition demo_ext_down :: ext where
  "demo_ext_down = demo_ext\<lparr>modis_reduce := (\<lambda>s e. raise_py (RemoteError ''backend unavailable''))\<rparr>"

definition demo_ext_landsat_down :: ext where
  "demo_ext_landsat_down =
     demo_ext\<lparr>landsat_reduce := (\<lambda>s e. raise_py (RemoteError ''landsat unavailable''))\<rparr>"

definition demo_self :: pyval where
  "demo_self = PObj ''TashkentDustAnalyzer'' 1"

definition demo_world :: world where
  "demo_world =
     \<lparr>now = 1000, rng_pos = 0, default_ttl = 1800,
      stats = \<lparr>hits = 0, misses = 0, saves = 0, errors = 0\<rparr>,
      data_dir = [], meta_dir = []\<rparr>"

text \<open>A store holding one entry written 10 seconds ago, and one written 45 minutes ago.\<close>

definition demo_world_young :: world where
  "demo_world_young = demo_world\<lparr>data_dir := [(''k.pkl'', \<lparr>mtime = 990, content = ''p1''\<rparr>)]\<rparr>"

definition demo_world_old :: world where
  "demo_world_old =
     demo_world\<lparr>now := 3000,
                data_dir := [(''k.pkl'', \<lparr>mtime = 300, content = ''p1''\<rparr>),
                             (''j.pkl'', \<lparr>mtime = 2900, content = ''p0''\<rparr>),
                             (''notes.txt'', \<lparr>mtime = 0, content = []\<rparr>)],
                meta_dir := [(''k.pkl'', \<lparr>meta_key = ''k'', timestamp = 300, size_bytes = 2,
                                          data_type = ''int''\<rparr>)]\<rparr>"

text \<open>An operation with an effect (it draws a random number) that returns \<^verbatim>\<open>None\<close>.\<close>

definition demo_none_op :: "pyval list \<Rightarrow> (string \<times> pyval) list \<Rightarrow> pyval py" where
  "demo_none_op args kwargs = bind_py (draw demo_ext) (\<lambda>r. return_py PNone)"

definition demo_one_op :: "pyval list \<Rightarrow> (string \<times> pyval) list \<Rightarrow> pyval py" where
  "demo_one_op args kwargs = bind_py (draw demo_ext) (\<lambda>r. return_py (PInt 1))"

definition demo_failing_op :: "pyval list \<Rightarrow> (string \<times> pyval) list \<Rightarrow> pyval py" where
  "demo_failing_op args kwargs = raise_py (RemoteError ''backend unavailable'')"

text \<open>A store whose only entry does not unpickle.\<close>

definition demo_world_corrupt :: world where
  "demo_world_corrupt = demo_world\<lparr>data_dir := [(''k.pkl'', \<lparr>mtime = 990, content = ''garbage''\<rparr>)]\<rparr>"

text \<open>
  The key of an operation named \<^verbatim>\<open>op\<close> called without arguments, a store holding a fresh
  entry under that key, and the world after a first decorated call of \<open>demo_none_op\<close>.
\<close>

definition demo_key :: string where
  "demo_key = generate_cache_key demo_ext [PStr ''op''] []"

definition demo_world_hit :: world where
  "demo_world_hit =
     demo_world\<lparr>data_dir := [(get_cache_path demo_key, \<lparr>mtime = 990, content = ''p1''\<rparr>)]\<rparr>"

definition demo_world_none :: world where
  "demo_world_none = snd (cached_operation demo_ext 30 ''op'' demo_none_op [] [] demo_world)"

text \<open>
  The keys of the three cached components and of the forecast for three days, the world
  after a miss followed by a successful store, and the results of a cold run of
  \<^verbatim>\<open>get_current_conditions\<close> against the answering backend.
\<close>

definition demo_modis_key :: string where
  "demo_modis_key = generate_cache_key demo_ext
     [PStr ''get_modis_data'', demo_self, PStr ''2025-04-10'', PStr ''2025-04-10''] []"

definition demo_landsat_key :: string where
  "demo_landsat_key = generate_cache_key demo_ext
     [PStr ''get_landsat_data'', demo_self, PStr ''2025-04-10'', PStr ''2025-04-10''] []"

definition demo_risk_key :: string where
  "demo_risk_key = generate_cache_key demo_ext
     [PStr ''calculate_dust_risk'', demo_self, demo_modis, demo_landsat] []"

definition demo_forecast_key :: string where
  "demo_forecast_key = generate_cache_key demo_ext
     [PStr ''generate_forecast'', demo_self] [(''days'', PInt 3)]"

definition stored :: "string \<Rightarrow> string \<Rightarrow> string \<Rightarrow> world \<Rightarrow> world" where
  "stored k b ty w =
     incr_saves ((incr_misses w)
       \<lparr>data_dir := AList.update (get_cache_path k) \<lparr>mtime = now w, content = b\<rparr> (data_dir w),
        meta_dir := AList.update (get_cache_path k)
           \<lparr>meta_key = k, timestamp = now w, size_bytes = length b, data_type = ty\<rparr> (meta_dir w)\<rparr>)"




text \<open>
  Stores in which the entry of a component holds a value of the wrong type, and the world
  after a forecast call against the backend that is down.
\<close>

definition demo_world_bad_modis :: world where
  "demo_world_bad_modis =
     demo_world\<lparr>data_dir := [(get_cache_path demo_modis_key, \<lparr>mtime = 990, content = ''p1''\<rparr>)]\<rparr>"

definition demo_world_bad_risk :: world where
  "demo_world_bad_risk =
     demo_world\<lparr>data_dir := [(get_cache_path demo_risk_key, \<lparr>mtime = 990, content = ''p1''\<rparr>)]\<rparr>"

definition demo_bad_risk_key :: string where
  "demo_bad_risk_key = generate_cache_key demo_ext
     [PStr ''calculate_dust_risk'', demo_self, PInt 1, demo_landsat] []"

definition demo_world_failed :: world where
  "demo_world_failed =
     snd (set_cache demo_ext_down demo_forecast_key demo_error_list
            (incr_misses (incr_misses demo_world)))"

section \<open>Basic facts about the cache store\<close>

lemma sort_key_fst_unique:
  assumes "distinct (map fst xs)" "distinct (map fst ys)" "set xs = set ys"
  shows "sort_key fst xs = sort_key fst ys"
proof -
  have inj: "inj_on fst (set xs)" using assms(1) by (simp add: distinct_map)
  have dx: "distinct (map fst (sort_key fst xs))"
    using assms(1) by (simp add: distinct_map)
  have dy: "distinct (map fst (sort_key fst ys))"
    using assms(2) by (simp add: distinct_map)
  have "set (map fst (sort_key fst xs)) = set (map fst (sort_key fst ys))"
    using assms(3) by simp
  then have "map fst (sort_key fst xs) = map fst (sort_key fst ys)"
    using sorted_distinct_set_unique [OF sorted_sort_key dx sorted_sort_key dy] by blast
  moreover have "inj_on fst (set (sort_key fst xs) \<union> set (sort_key fst ys))"
    using inj assms(3) by simp
  ultimately show ?thesis by (rule map_inj_on)
qed

lemma get_eq:
  "get X k ttl w =
     (case map_of (data_dir w) (get_cache_path k) of
        None \<Rightarrow> (Inr PNone, incr_misses w)
      | Some f \<Rightarrow>
          if now w - mtime f < effective_ttl ttl w then
            (case pickle_loads X (content f) of
               None \<Rightarrow> (Inr PNone, incr_errors w)
             | Some v \<Rightarrow> (Inr v, incr_hits w))
          else (Inr PNone, incr_misses w))"
  by (simp add: get_def try_except_def get_try_def is_cache_valid_def or_default_def
      effective_ttl_def Let_def split: option.splits)

lemma set_cache_eq:
  "set_cache X k v w =
     (case pickle_dumps X v of
        None \<Rightarrow> (Inr PNone, incr_errors
          (w\<lparr>data_dir := AList.update (get_cache_path k) \<lparr>mtime = now w, content = []\<rparr> (data_dir w)\<rparr>))
      | Some b \<Rightarrow> (Inr PNone, incr_saves
          (w\<lparr>data_dir := AList.update (get_cache_path k) \<lparr>mtime = now w, content = b\<rparr> (data_dir w),
             meta_dir := AList.update (get_cache_path k)
               \<lparr>meta_key = k, timestamp = now w, size_bytes = length b, data_type = type_name v\<rparr>
               (meta_dir w)\<rparr>)))"
  by (simp add: set_cache_def try_except_def set_try_def Let_def split: option.splits)

lemma valid_delete_other:
  "fn \<noteq> filename \<Longrightarrow>
   is_cache_valid fn t (w\<lparr>data_dir := AList.delete filename (data_dir w),
                          meta_dir := AList.delete filename (meta_dir w)\<rparr>) = is_cache_valid fn t w"
  by (simp add: is_cache_valid_def delete_conv' Let_def split: option.splits)

lemma expired_delete_other:
  "fn \<noteq> filename \<Longrightarrow>
   expired (w\<lparr>data_dir := AList.delete filename (data_dir w),
              meta_dir := AList.delete filename (meta_dir w)\<rparr>) fn = expired w fn"
  by (simp add: expired_def valid_delete_other)

lemma filter_delete_step:
  assumes "\<And>fn. fn \<in> set rest \<Longrightarrow> E' fn = E fn" and "E filename"
  shows "filter (\<lambda>(fn, f). \<not> (fn \<in> set rest \<and> E' fn)) (AList.delete filename al) =
         filter (\<lambda>(fn, f). \<not> (fn \<in> set (filename # rest) \<and> E fn)) al"
  using assms by (induction al) auto

lemma filter_keep_step:
  assumes "\<not> E filename"
  shows "filter (\<lambda>(fn, f). \<not> (fn \<in> set rest \<and> E fn)) al =
         filter (\<lambda>(fn, f). \<not> (fn \<in> set (filename # rest) \<and> E fn)) al"
  using assms by (induction al) auto

lemma clear_loop_spec:
  "distinct names \<Longrightarrow>
   clear_loop names w c =
     (c + length (filter (expired w) names),
      w\<lparr>data_dir := filter (\<lambda>(fn, f). \<not> (fn \<in> set names \<and> expired w fn)) (data_dir w),
        meta_dir := filter (\<lambda>(fn, m). \<not> (fn \<in> set names \<and> expired w fn)) (meta_dir w)\<rparr>)"
proof (induction names arbitrary: w c)
  case Nil
  then show ?case by simp
next
  case (Cons filename rest)
  let ?w' = "w\<lparr>data_dir := AList.delete filename (data_dir w),
                meta_dir := AList.delete filename (meta_dir w)\<rparr>"
  have d: "distinct rest" and nin: "filename \<notin> set rest" using Cons.prems by auto
  have same: "\<And>fn. fn \<in> set rest \<Longrightarrow> expired ?w' fn = expired w fn"
    using nin by (intro expired_delete_other) auto
  have f1: "filter (expired ?w') rest = filter (expired w) rest"
    by (rule filter_cong) (auto simp: same)
  show ?case
  proof (cases "expired w filename")
    case True
    have dd: "filter (\<lambda>(fn, f). \<not> (fn \<in> set rest \<and> expired ?w' fn)) (AList.delete filename (data_dir w))
              = filter (\<lambda>(fn, f). \<not> (fn \<in> set (filename # rest) \<and> expired w fn)) (data_dir w)"
      by (rule filter_delete_step [where E' = "expired ?w'" and E = "expired w"]) (simp_all add: same True)
    have md: "filter (\<lambda>(fn, f). \<not> (fn \<in> set rest \<and> expired ?w' fn)) (AList.delete filename (meta_dir w))
              = filter (\<lambda>(fn, f). \<not> (fn \<in> set (filename # rest) \<and> expired w fn)) (meta_dir w)"
      by (rule filter_delete_step [where E' = "expired ?w'" and E = "expired w"]) (simp_all add: same True)
    have "clear_loop (filename # rest) w c = clear_loop rest ?w' (c + 1)"
      using True by (simp add: expired_def)
    also have "\<dots> = (c + 1 + length (filter (expired ?w') rest),
      ?w'\<lparr>data_dir := filter (\<lambda>(fn, f). \<not> (fn \<in> set rest \<and> expired ?w' fn)) (data_dir ?w'),
        meta_dir := filter (\<lambda>(fn, m). \<not> (fn \<in> set rest \<and> expired ?w' fn)) (meta_dir ?w')\<rparr>)"
      by (rule Cons.IH [OF d])
    also have "\<dots> = (c + 1 + length (filter (expired w) rest),
      w\<lparr>data_dir := filter (\<lambda>(fn, f). \<not> (fn \<in> set rest \<and> expired ?w' fn)) (AList.delete filename (data_dir w)),
        meta_dir := filter (\<lambda>(fn, m). \<not> (fn \<in> set rest \<and> expired ?w' fn)) (AList.delete filename (meta_dir w))\<rparr>)"
      by (simp add: f1)
    also have "\<dots> = (c + length (filter (expired w) (filename # rest)),
      w\<lparr>data_dir := filter (\<lambda>(fn, f). \<not> (fn \<in> set (filename # rest) \<and> expired w fn)) (data_dir w),
        meta_dir := filter (\<lambda>(fn, m). \<not> (fn \<in> set (filename # rest) \<and> expired w fn)) (meta_dir w)\<rparr>)"
      unfolding dd md using True by simp
    finally show ?thesis .
  next
    case False
    have dd: "filter (\<lambda>(fn, f). \<not> (fn \<in> set rest \<and> expired w fn)) (data_dir w)
              = filter (\<lambda>(fn, f). \<not> (fn \<in> set (filename # rest) \<and> expired w fn)) (data_dir w)"
      by (rule filter_keep_step [where E = "expired w"]) (simp add: False)
    have md: "filter (\<lambda>(fn, f). \<not> (fn \<in> set rest \<and> expired w fn)) (meta_dir w)
              = filter (\<lambda>(fn, f). \<not> (fn \<in> set (filename # rest) \<and> expired w fn)) (meta_dir w)"
      by (rule filter_keep_step [where E = "expired w"]) (simp add: False)
    have "clear_loop (filename # rest) w c = clear_loop rest w c"
      using False by (auto simp: expired_def)
    also have "\<dots> = (c + length (filter (expired w) rest),
      w\<lparr>data_dir := filter (\<lambda>(fn, f). \<not> (fn \<in> set rest \<and> expired w fn)) (data_dir w),
        meta_dir := filter (\<lambda>(fn, m). \<not> (fn \<in> set rest \<and> expired w fn)) (meta_dir w)\<rparr>)"
      by (rule Cons.IH [OF d])
    also have "\<dots> = (c + length (filter (expired w) (filename # rest)),
      w\<lparr>data_dir := filter (\<lambda>(fn, f). \<not> (fn \<in> set (filename # rest) \<and> expired w fn)) (data_dir w),
        meta_dir := filter (\<lambda>(fn, m). \<not> (fn \<in> set (filename # rest) \<and> expired w fn)) (meta_dir w)\<rparr>)"
      unfolding dd md using False by simp
    finally show ?thesis .
  qed
qed


lemma endswith_cache_path: "endswith (get_cache_path k) ''.pkl''"
  by (simp add: endswith_def get_cache_path_def)

lemma cached_operation_eq:
  "cached_operation X ttl func_name func args kwargs w =
     (case get X (generate_cache_key X (PStr func_name # args) kwargs) (Some ttl) w of
        (Inl e, w1) \<Rightarrow> (Inl e, w1)
      | (Inr c, w1) \<Rightarrow>
          if c \<noteq> PNone then (Inr c, w1)
          else (case func args kwargs w1 of
                  (Inl e, w2) \<Rightarrow> (Inl e, w2)
                | (Inr r, w2) \<Rightarrow>
                    (Inr r, snd (set_cache X (generate_cache_key X (PStr func_name # args) kwargs) r w2))))"
  by (auto simp: cached_operation_def bind_py_def try_except_def return_py_def raise_py_def
      set_cache_eq Let_def split: prod.splits sum.splits option.splits)

lemma map_of_filter_fst:
  "map_of (filter (\<lambda>(fn, f). P fn) al) k = (if P k then map_of al k else None)"
  by (induction al) auto

lemma expired_age:
  assumes "distinct (map fst (data_dir w))" and "(fn, f) \<in> set (data_dir w)"
  shows "expired w fn \<longleftrightarrow> endswith fn ''.pkl'' \<and> \<not> (now w - mtime f < default_ttl w)"
proof -
  have "map_of (data_dir w) fn = Some f" using assms by simp
  then show ?thesis by (simp add: expired_def is_cache_valid_def or_default_def)
qed

lemma tick_simps:
  "now (tick d w) = now w + d" "default_ttl (tick d w) = default_ttl w"
  "data_dir (tick d w) = data_dir w" "meta_dir (tick d w) = meta_dir w"
  "stats (tick d w) = stats w" "rng_pos (tick d w) = rng_pos w"
  by (simp_all add: tick_def)

lemma effective_ttl_cong:
  "default_ttl w' = default_ttl w \<Longrightarrow> effective_ttl t w' = effective_ttl t w"
  by (cases t) (simp_all add: effective_ttl_def)

lemma demo_ext_simps:
  "py_str demo_ext = demo_str" "md5_hexdigest demo_ext = (\<lambda>s. s)"
  "pickle_dumps demo_ext = demo_dumps" "pickle_loads demo_ext = demo_loads"
  "calendar demo_ext = demo_calendar" "np_random demo_ext = (\<lambda>n. 1 / 2)"
  by (simp_all add: demo_ext_def)

lemma demo_codebook:
  "demo_dumps PNone = Some ''p0''" "demo_dumps (PInt 1) = Some ''p1''"
  "demo_dumps demo_nested = Some ''p2''" "demo_dumps demo_error_list = Some ''p3''"
  "demo_dumps demo_modis = Some ''p4''" "demo_dumps demo_landsat = Some ''p5''"
  "demo_dumps demo_risk = Some ''p6''"
  "demo_loads ''p0'' = Some PNone" "demo_loads ''p1'' = Some (PInt 1)"
  "demo_loads ''p2'' = Some demo_nested" "demo_loads ''p3'' = Some demo_error_list"
  "demo_loads ''p4'' = Some demo_modis" "demo_loads ''p5'' = Some demo_landsat"
  "demo_loads ''p6'' = Some demo_risk"
  by (simp_all add: demo_dumps_def demo_loads_def demo_pickles_def demo_nested_def
      demo_error_list_def demo_modis_def demo_landsat_def demo_risk_def)

lemma demo_codebook_outside:
  "demo_dumps (PInt 2) = None" "demo_loads ''garbage'' = None"
  by (simp_all add: demo_dumps_def demo_loads_def demo_pickles_def demo_nested_def
      demo_error_list_def demo_modis_def demo_landsat_def demo_risk_def)

lemma demo_world_simps:
  "now demo_world = 1000" "default_ttl demo_world = 1800" "data_dir demo_world = []"
  "meta_dir demo_world = []" "rng_pos demo_world = 0"
  "stats demo_world = \<lparr>hits = 0, misses = 0, saves = 0, errors = 0\<rparr>"
  by (simp_all add: demo_world_def)

lemma demo_first_call:
  "cached_operation demo_ext 30 ''op'' demo_none_op [] [] demo_world
   = (Inr PNone,
      demo_world\<lparr>rng_pos := 1,
        stats := \<lparr>hits = 0, misses = 1, saves = 1, errors = 0\<rparr>,
        data_dir := [(get_cache_path demo_key, \<lparr>mtime = 1000, content = ''p0''\<rparr>)],
        meta_dir := [(get_cache_path demo_key, \<lparr>meta_key = demo_key, timestamp = 1000,
                       size_bytes = 2, data_type = ''NoneType''\<rparr>)]\<rparr>)"
  by (simp add: cached_operation_eq get_eq set_cache_eq demo_key_def [symmetric] demo_world_simps
      demo_none_op_def bind_py_def draw_def return_py_def incr_misses_def incr_saves_def
      demo_ext_simps demo_codebook demo_world_def)


lemma demo_draw:
  "demo_one_op [] [] w = (Inr (PInt 1), w\<lparr>rng_pos := rng_pos w + 1\<rparr>)"
  "demo_none_op [] [] w = (Inr PNone, w\<lparr>rng_pos := rng_pos w + 1\<rparr>)"
  "demo_failing_op [] [] w = (Inl (RemoteError ''backend unavailable''), w)"
  by (simp_all add: demo_one_op_def demo_none_op_def demo_failing_op_def bind_py_def draw_def
      return_py_def raise_py_def)

lemma demo_world_old_simps:
  "now demo_world_old = 3000" "default_ttl demo_world_old = 1800"
  "data_dir demo_world_old = [(''k.pkl'', \<lparr>mtime = 300, content = ''p1''\<rparr>),
                             (''j.pkl'', \<lparr>mtime = 2900, content = ''p0''\<rparr>),
                             (''notes.txt'', \<lparr>mtime = 0, content = []\<rparr>)]"
  "meta_dir demo_world_old = [(''k.pkl'', \<lparr>meta_key = ''k'', timestamp = 300, size_bytes = 2,
                                          data_type = ''int''\<rparr>)]"
  by (simp_all add: demo_world_old_def demo_world_def)

lemma demo_old_expired:
  "expired demo_world_old ''k.pkl''" "\<not> expired demo_world_old ''j.pkl''"
  "\<not> expired demo_world_old ''notes.txt''"
  by (simp_all add: expired_def endswith_def is_cache_valid_def or_default_def demo_world_old_simps)

section \<open>Basic facts about the analyzer\<close>

lemma exponent_of_numeral:
  "exponent_of (numeral k) x =
     (if 2 \<le> x then exponent_of (pred_numeral k) (x / 2) + 1
      else if x < 1 then exponent_of (pred_numeral k) (x * 2) - 1
      else 0)"
  by (simp add: numeral_eq_Suc)

lemmas fl_eval = fl_def exponent_of_numeral pow2_def round_half_even_def Let_def

lemma fl_literals:
  "fl (1 / 10) = 3602879701896397 / 36028797018963968"
  "fl (1 / 5) = 3602879701896397 / 18014398509481984"
  "fl (1 / 20) = 3602879701896397 / 72057594037927936"
  "fl (3 / 10) = 5404319552844595 / 18014398509481984"
  "fl (2 / 5) = 3602879701896397 / 9007199254740992"
  "fl (3 / 5) = 5404319552844595 / 9007199254740992"
  "fl (93 / 200) = 8376695306909123 / 18014398509481984"
  "fl (9 / 10) = 8106479329266893 / 9007199254740992"
  by (simp_all add: fl_eval)

lemma fl_small_ints: "fl 0 = 0" "fl 1 = 1" "fl 20 = 20" "fl 25 = 25"
  by (simp_all add: fl_eval)

lemma to_float_max0: "to_float (num_max (NInt 0) (NFloat y)) = max 0 y"
  by (simp add: num_max_def fl_small_ints)

lemma mul_max0: "num_mul (NFloat c) (num_max (NInt 0) (NFloat y)) = NFloat (fl (c * max 0 y))"
  by (simp add: num_max_def fl_small_ints max_def)

lemma clamp_to_float:
  "to_float (num_max (NInt 0) (num_min (NInt 1) (NFloat s))) = max 0 (min 1 s)"
  by (simp add: num_max_def num_min_def fl_small_ints)

lemma clamp_num_real:
  "num_real (num_max (NInt 0) (num_min (NInt 1) (NFloat s))) = max 0 (min 1 s)"
  by (simp add: num_max_def num_min_def)

lemma risk_thresholds: "fl 0.3 \<le> fl 0.6"
  by (simp add: fl_literals)

lemma get_current_conditions_try_eq:
  "get_current_conditions_try X self days_back w =
     (case get_modis_data X self (ymd (calendar X (now w) (- days_back)))
             (ymd (calendar X (now w) 0)) w of
        (Inl e, w1) \<Rightarrow> (Inl e, w1)
      | (Inr modis_data, w1) \<Rightarrow>
          (case get_landsat_data X self (ymd (calendar X (now w) (- days_back)))
                  (ymd (calendar X (now w) 0)) w1 of
             (Inl e, w2) \<Rightarrow> (Inl e, w2)
           | (Inr landsat_data, w2) \<Rightarrow>
               (case calculate_dust_risk X self modis_data landsat_data w2 of
                  (Inl e, w3) \<Rightarrow> (Inl e, w3)
                | (Inr risk_data, w3) \<Rightarrow>
                    (assemble_results X days_back (now w) modis_data landsat_data risk_data w3, w3))))"
  by (simp add: get_current_conditions_try_def bind_py_def clock_def Let_def
      split: prod.splits sum.splits)

lemma get_current_conditions_eq:
  "get_current_conditions X self days_back w =
     (case get_current_conditions_try X self days_back w of
        (Inl e, w1) \<Rightarrow> (Inr (error_envelope e w1), w1)
      | (Inr r, w1) \<Rightarrow> (Inr r, w1))"
  by (simp add: get_current_conditions_def try_except_def error_envelope_def
      split: prod.splits sum.splits)

lemma demo_ext_down_simps:
  "py_str demo_ext_down = demo_str" "md5_hexdigest demo_ext_down = (\<lambda>s. s)"
  "pickle_dumps demo_ext_down = demo_dumps" "pickle_loads demo_ext_down = demo_loads"
  "calendar demo_ext_down = demo_calendar" "np_random demo_ext_down = (\<lambda>n. 1 / 2)"
  "modis_reduce demo_ext_down = (\<lambda>s e. raise_py (RemoteError ''backend unavailable''))"
  by (simp_all add: demo_ext_down_def demo_ext_def)

lemma demo_ext_fetch_simps:
  "modis_reduce demo_ext = (\<lambda>s e. return_py [(''LST_Day_1km_mean'', Some 30),
                                         (''LST_Day_1km_stdDev'', Some 2)])"
  "modis_size demo_ext = (\<lambda>s e. return_py 12)"
  "landsat_reduce demo_ext = (\<lambda>s e. return_py [(''NDVI_mean'', Some (fl 0.1)),
                                           (''NDVI_stdDev'', Some (fl 0.05)),
                                           (''NDDI_mean'', Some (fl 0.2)),
                                           (''NDDI_stdDev'', Some (fl 0.05))])"
  "landsat_size demo_ext = (\<lambda>s e. return_py 5)"
  by (simp_all add: demo_ext_def)

lemma demo_dates:
  "ymd (demo_calendar t i) = ''2025-04-10''"
  by (simp add: demo_calendar_def)

lemma modis_body_demo:
  "get_modis_data_body demo_ext s e w = (Inr demo_modis, w)"
  by (simp add: get_modis_data_body_def bind_py_def return_py_def lift_py_def float_of_stat_def
      demo_ext_fetch_simps demo_modis_def)

lemma landsat_body_demo:
  "get_landsat_data_body demo_ext s e w = (Inr demo_landsat, w)"
  by (simp add: get_landsat_data_body_def bind_py_def return_py_def lift_py_def float_of_stat_def
      demo_ext_fetch_simps demo_landsat_def)





lemma generate_forecast_body_error:
  assumes "get_current_conditions X self 60 w = (Inr current, w2)"
    and "map_of current ''error'' = Some reason"
  shows "generate_forecast_body X self days w =
           (Inr (PList [PDict [(''error'', PStr ''Could not generate forecast''),
                               (''reason'', reason)]]), w2)"
  using assms
  by (simp add: generate_forecast_body_def generate_forecast_try_def try_except_def bind_py_def
      return_py_def)


lemma demo_world_none_eq:
  "demo_world_none =
      demo_world\<lparr>rng_pos := 1,
        stats := \<lparr>hits = 0, misses = 1, saves = 1, errors = 0\<rparr>,
        data_dir := [(get_cache_path demo_key, \<lparr>mtime = 1000, content = ''p0''\<rparr>)],
        meta_dir := [(get_cache_path demo_key, \<lparr>meta_key = demo_key, timestamp = 1000,
                       size_bytes = 2, data_type = ''NoneType''\<rparr>)]\<rparr>"
  by (simp add: demo_world_none_def demo_first_call)

section \<open>Evaluation in the concrete environment\<close>

lemma get_cache_path_inj [simp]: "get_cache_path a = get_cache_path b \<longleftrightarrow> a = b"
  by (simp add: get_cache_path_def)

lemma demo_keys_distinct:
  "demo_modis_key \<noteq> demo_landsat_key" "demo_modis_key \<noteq> demo_risk_key"
  "demo_landsat_key \<noteq> demo_risk_key" "demo_landsat_key \<noteq> demo_modis_key"
  "demo_risk_key \<noteq> demo_modis_key" "demo_risk_key \<noteq> demo_landsat_key"
  "demo_forecast_key \<noteq> demo_modis_key" "demo_forecast_key \<noteq> demo_landsat_key"
  "demo_forecast_key \<noteq> demo_risk_key"
  by (simp_all add: demo_modis_key_def demo_landsat_key_def demo_risk_key_def demo_forecast_key_def
      generate_cache_key_def demo_ext_simps)

lemma incr_proj [simp]:
  "now (incr_misses w) = now w" "data_dir (incr_misses w) = data_dir w"
  "meta_dir (incr_misses w) = meta_dir w" "default_ttl (incr_misses w) = default_ttl w"
  "rng_pos (incr_misses w) = rng_pos w"
  "now (incr_saves w) = now w" "data_dir (incr_saves w) = data_dir w"
  "meta_dir (incr_saves w) = meta_dir w" "default_ttl (incr_saves w) = default_ttl w"
  "rng_pos (incr_saves w) = rng_pos w"
  "now (incr_hits w) = now w" "data_dir (incr_hits w) = data_dir w"
  "meta_dir (incr_hits w) = meta_dir w" "default_ttl (incr_hits w) = default_ttl w"
  "rng_pos (incr_hits w) = rng_pos w"
  by (simp_all add: incr_misses_def incr_saves_def incr_hits_def)

lemma modis_miss:
  assumes "map_of (data_dir w) (get_cache_path demo_modis_key) = None"
  shows "get_modis_data demo_ext demo_self ''2025-04-10'' ''2025-04-10'' w
           = (Inr demo_modis, stored demo_modis_key ''p4'' ''dict'' w)"
  using assms
  by (simp add: get_modis_data_def cached_operation_eq demo_modis_key_def [symmetric] get_eq
      modis_body_demo set_cache_eq demo_ext_simps demo_codebook stored_def)
     (simp add: demo_modis_def)


lemma landsat_miss:
  assumes "map_of (data_dir w) (get_cache_path demo_landsat_key) = None"
  shows "get_landsat_data demo_ext demo_self ''2025-04-10'' ''2025-04-10'' w
           = (Inr demo_landsat, stored demo_landsat_key ''p5'' ''dict'' w)"
  using assms
  by (simp add: get_landsat_data_def cached_operation_eq demo_landsat_key_def [symmetric] get_eq
      landsat_body_demo set_cache_eq demo_ext_simps demo_codebook stored_def)
     (simp add: demo_landsat_def)

lemma risk_body_demo: "calculate_dust_risk_body demo_modis demo_landsat = Inr demo_risk"
proof -
  have "calculate_dust_risk_body demo_modis demo_landsat =
          (let temp_factor = num_max (NInt 0) (NFloat (fl (fl (30 - 25) / 20)));
               veg_factor = num_max (NInt 0) (NFloat (fl (1 - fl (1 / 10))));
               dust_factor = num_max (NInt 0) (NFloat (fl (fl (1 / 5) + fl (1 / 10))));
               dust_risk_index =
                 num_add (num_add (num_mul (NFloat (fl (2 / 5))) dust_factor)
                                  (num_mul (NFloat (fl (3 / 10))) temp_factor))
                         (num_mul (NFloat (fl (3 / 10))) veg_factor);
               dust_risk_index = num_max (NInt 0) (num_min (NInt 1) dust_risk_index)
           in Inr (PDict [(''dust_risk_index'', PFloat (to_float dust_risk_index)),
                          (''risk_level'', PStr (risk_level_of dust_risk_index)),
                          (''temperature_factor'', PFloat (to_float temp_factor)),
                          (''vegetation_factor'', PFloat (to_float veg_factor)),
                          (''dust_factor'', PFloat (to_float dust_factor))]))"
    by (simp add: calculate_dust_risk_body_def bind_exn_def subscript_def dict_subscript_def
        as_num_def demo_modis_def demo_landsat_def fl_small_ints Let_def)
  also have "\<dots> = Inr demo_risk"
    unfolding Let_def
    by (simp add: fl_eval num_max_def num_min_def risk_level_of_def demo_risk_def)
  finally show ?thesis .
qed

lemma risk_body_edge:
  "calculate_dust_risk_body edge_modis edge_landsat =
     Inr (PDict [(''dust_risk_index'', PFloat (5404319552844595 / 18014398509481984)),
                 (''risk_level'', PStr ''low''),
                 (''temperature_factor'', PFloat 0),
                 (''vegetation_factor'', PFloat 1),
                 (''dust_factor'', PFloat (1 / 72057594037927936))])"
proof -
  have "calculate_dust_risk_body edge_modis edge_landsat =
          (let temp_factor = num_max (NInt 0) (NFloat (fl (fl (20 - 25) / 20)));
               veg_factor = num_max (NInt 0) (NFloat (fl (1 - 0)));
               dust_factor = num_max (NInt 0)
                  (NFloat (fl (- 7205759403792793 / 72057594037927936 + fl (1 / 10))));
               dust_risk_index =
                 num_add (num_add (num_mul (NFloat (fl (2 / 5))) dust_factor)
                                  (num_mul (NFloat (fl (3 / 10))) temp_factor))
                         (num_mul (NFloat (fl (3 / 10))) veg_factor);
               dust_risk_index = num_max (NInt 0) (num_min (NInt 1) dust_risk_index)
           in Inr (PDict [(''dust_risk_index'', PFloat (to_float dust_risk_index)),
                          (''risk_level'', PStr (risk_level_of dust_risk_index)),
                          (''temperature_factor'', PFloat (to_float temp_factor)),
                          (''vegetation_factor'', PFloat (to_float veg_factor)),
                          (''dust_factor'', PFloat (to_float dust_factor))]))"
    by (simp add: calculate_dust_risk_body_def bind_exn_def subscript_def dict_subscript_def
        as_num_def edge_modis_def edge_landsat_def fl_small_ints Let_def)
  also have "\<dots> =
     Inr (PDict [(''dust_risk_index'', PFloat (5404319552844595 / 18014398509481984)),
                 (''risk_level'', PStr ''low''),
                 (''temperature_factor'', PFloat 0),
                 (''vegetation_factor'', PFloat 1),
                 (''dust_factor'', PFloat (1 / 72057594037927936))])"
    unfolding Let_def
    by (simp add: fl_eval num_max_def num_min_def risk_level_of_def)
  finally show ?thesis .
qed


lemma stored_proj [simp]:
  "now (stored k b ty w) = now w" "default_ttl (stored k b ty w) = default_ttl w"
  "rng_pos (stored k b ty w) = rng_pos w"
  "data_dir (stored k b ty w)
     = AList.update (get_cache_path k) \<lparr>mtime = now w, content = b\<rparr> (data_dir w)"
  by (simp_all add: stored_def)




lemma demo_ext_landsat_down_simps:
  "py_str demo_ext_landsat_down = demo_str" "md5_hexdigest demo_ext_landsat_down = (\<lambda>s. s)"
  "pickle_dumps demo_ext_landsat_down = demo_dumps" "pickle_loads demo_ext_landsat_down = demo_loads"
  "calendar demo_ext_landsat_down = demo_calendar"
  "modis_reduce demo_ext_landsat_down = (\<lambda>s e. return_py [(''LST_Day_1km_mean'', Some 30),
                                         (''LST_Day_1km_stdDev'', Some 2)])"
  "modis_size demo_ext_landsat_down = (\<lambda>s e. return_py 12)"
  "landsat_reduce demo_ext_landsat_down = (\<lambda>s e. raise_py (RemoteError ''landsat unavailable''))"
  by (simp_all add: demo_ext_landsat_down_def demo_ext_def)

lemma demo_keys_other_ext:
  "generate_cache_key demo_ext_down args kwargs = generate_cache_key demo_ext args kwargs"
  "generate_cache_key demo_ext_landsat_down args kwargs = generate_cache_key demo_ext args kwargs"
  by (simp_all add: generate_cache_key_def demo_ext_simps demo_ext_down_simps
      demo_ext_landsat_down_simps)

lemma modis_down_miss:
  assumes "map_of (data_dir w) (get_cache_path demo_modis_key) = None"
  shows "get_modis_data demo_ext_down demo_self ''2025-04-10'' ''2025-04-10'' w
     = (Inl (RemoteError ''backend unavailable''), incr_misses w)"
  using assms
  by (simp add: get_modis_data_def cached_operation_eq demo_keys_other_ext
      demo_modis_key_def [symmetric] get_eq
      get_modis_data_body_def bind_py_def raise_py_def demo_ext_down_simps)

lemma modis_miss_landsat_down:
  assumes "map_of (data_dir w) (get_cache_path demo_modis_key) = None"
  shows "get_modis_data demo_ext_landsat_down demo_self ''2025-04-10'' ''2025-04-10'' w
           = (Inr demo_modis, stored demo_modis_key ''p4'' ''dict'' w)"
  using assms
  by (simp add: get_modis_data_def cached_operation_eq demo_keys_other_ext
      demo_modis_key_def [symmetric] get_eq get_modis_data_body_def bind_py_def return_py_def
      lift_py_def float_of_stat_def demo_modis_def [symmetric]
      set_cache_eq demo_ext_landsat_down_simps demo_codebook stored_def)
     (simp add: demo_modis_def)

lemma landsat_down_miss:
  assumes "map_of (data_dir w) (get_cache_path demo_landsat_key) = None"
  shows "get_landsat_data demo_ext_landsat_down demo_self ''2025-04-10'' ''2025-04-10'' w
     = (Inl (RemoteError ''landsat unavailable''), incr_misses w)"
  using assms
  by (simp add: get_landsat_data_def cached_operation_eq demo_keys_other_ext
      demo_landsat_key_def [symmetric] get_eq
      get_landsat_data_body_def bind_py_def raise_py_def demo_ext_landsat_down_simps)

lemma demo_bad_keys_distinct:
  "demo_bad_risk_key \<noteq> demo_modis_key" "demo_bad_risk_key \<noteq> demo_landsat_key"
  by (simp_all add: demo_modis_key_def demo_landsat_key_def demo_bad_risk_key_def
      generate_cache_key_def demo_ext_simps)

lemma modis_hit_bad:
  "get_modis_data demo_ext demo_self ''2025-04-10'' ''2025-04-10'' demo_world_bad_modis
     = (Inr (PInt 1), incr_hits demo_world_bad_modis)"
  by (simp add: get_modis_data_def cached_operation_eq demo_modis_key_def [symmetric] get_eq
      demo_world_bad_modis_def demo_world_simps effective_ttl_def demo_ext_simps demo_codebook)

lemma risk_bad_miss:
  assumes "map_of (data_dir w) (get_cache_path demo_bad_risk_key) = None"
  shows "calculate_dust_risk demo_ext demo_self (PInt 1) demo_landsat w
           = (Inl (TypeError ''int''), incr_misses w)"
  using assms
  by (simp add: calculate_dust_risk_def cached_operation_eq demo_bad_risk_key_def [symmetric] get_eq
      lift_py_def calculate_dust_risk_body_def bind_exn_def subscript_def)

lemma risk_hit_bad:
  assumes "map_of (data_dir w) (get_cache_path demo_risk_key) = Some \<lparr>mtime = 990, content = ''p1''\<rparr>"
    and "now w = 1000" and "default_ttl w = 1800"
  shows "calculate_dust_risk demo_ext demo_self demo_modis demo_landsat w
           = (Inr (PInt 1), incr_hits w)"
  using assms
  by (simp add: calculate_dust_risk_def cached_operation_eq demo_risk_key_def [symmetric] get_eq
      effective_ttl_def demo_ext_simps demo_codebook)

lemma assemble_bad:
  "assemble_results demo_ext 60 start_time demo_modis demo_landsat (PInt 1) w = Inl (TypeError ''int'')"
  by (simp add: assemble_results_def bind_exn_def subscript_def dict_subscript_def dict_items_def
      demo_modis_def demo_landsat_def)

lemma demo_world_failed_now: "now demo_world_failed = 1000"
  by (simp add: demo_world_failed_def set_cache_eq demo_ext_down_simps demo_codebook
      demo_world_simps)

section \<open>Key derivation\<close>

text \<open>
  C2. Two calls of \<^verbatim>\<open>generate_cache_key\<close> for the same operation name, the same positional
  arguments and the same keyword name/value pairs, given in any insertion order, return
  the same fingerprint. The keyword names of a call are distinct.
\<close>

theorem generate_cache_key_deterministic:
  assumes "distinct (map fst kwargs1)" and "distinct (map fst kwargs2)"
    and "set kwargs1 = set kwargs2"
  shows "generate_cache_key X (PStr op_name # args) kwargs1
         = generate_cache_key X (PStr op_name # args) kwargs2"
  using assms by (simp add: generate_cache_key_def sort_key_fst_unique [of kwargs1 kwargs2])

theorem generate_cache_key_deterministic_witness:
  "distinct (map fst [(''days'', PInt 7), (''a'', PInt 1)])
   \<and> distinct (map fst [(''a'', PInt 1), (''days'', PInt 7)])
   \<and> set [(''days'', PInt 7), (''a'', PInt 1)] = set [(''a'', PInt 1), (''days'', PInt 7)]
   \<and> generate_cache_key demo_ext [PStr ''generate_forecast'', demo_self]
        [(''days'', PInt 7), (''a'', PInt 1)]
      = generate_cache_key demo_ext [PStr ''generate_forecast'', demo_self]
        [(''a'', PInt 1), (''days'', PInt 7)]"
proof -
  have d1: "distinct (map fst [(''days'', PInt 7), (''a'', PInt 1)])" by simp
  have d2: "distinct (map fst [(''a'', PInt 1), (''days'', PInt 7)])" by simp
  have s: "set [(''days'', PInt 7), (''a'', PInt 1)] = set [(''a'', PInt 1), (''days'', PInt 7)]"
    by auto
  show ?thesis
    using generate_cache_key_deterministic [OF d1 d2 s, of demo_ext "''generate_forecast''" "[demo_self]"]
      d1 d2 s by blast
qed

section \<open>Validity of an entry under a TTL\<close>

text \<open>
  C3, amended. A stored, readable entry is a hit exactly when
  \<open>now - stored_at < ttl\<close>, with strict less-than, where \<open>ttl\<close> is the reader's per-call TTL
  in seconds when the reader gives one that is not zero, and the store default otherwise
  (\<open>effective_ttl\<close>). Hence an entry written at \<open>t0\<close> is a hit when read at
  \<open>t0 + ttl - \<epsilon>\<close> and a miss when read at \<open>t0 + ttl + \<epsilon>\<close>, for \<open>\<epsilon> > 0\<close>, and one entry can be
  valid for a caller and expired for another caller with a different TTL.
\<close>

theorem ttl_validity:
  assumes "map_of (data_dir w) (get_cache_path k) = Some f"
    and "pickle_loads X (content f) = Some v"
  shows "get X k ttl_minutes w =
           (if now w - mtime f < effective_ttl ttl_minutes w
            then (Inr v, incr_hits w) else (Inr PNone, incr_misses w))
         \<and> (0 < \<epsilon> \<and> now w = mtime f + effective_ttl ttl_minutes w - \<epsilon>
              \<longrightarrow> get X k ttl_minutes w = (Inr v, incr_hits w))
         \<and> (0 < \<epsilon> \<and> now w = mtime f + effective_ttl ttl_minutes w + \<epsilon>
              \<longrightarrow> get X k ttl_minutes w = (Inr PNone, incr_misses w))
         \<and> (effective_ttl ttl_minutes w \<le> now w - mtime f
              \<and> now w - mtime f < effective_ttl other_ttl w
              \<longrightarrow> get X k ttl_minutes w = (Inr PNone, incr_misses w)
                  \<and> get X k other_ttl w = (Inr v, incr_hits w))"
  using assms by (simp add: get_eq)

theorem ttl_validity_witness:
  "map_of (data_dir demo_world_young) (get_cache_path ''k'') = Some \<lparr>mtime = 990, content = ''p1''\<rparr>
   \<and> pickle_loads demo_ext ''p1'' = Some (PInt 1)
   \<and> (0::real) < 1790
   \<and> now demo_world_young = 990 + effective_ttl None demo_world_young - 1790
   \<and> get demo_ext ''k'' None demo_world_young = (Inr (PInt 1), incr_hits demo_world_young)
   \<and> (0::real) < 4
   \<and> now demo_world_young = 990 + effective_ttl (Some (1 / 10)) demo_world_young + 4
   \<and> effective_ttl (Some (1 / 10)) demo_world_young \<le> now demo_world_young - 990
   \<and> now demo_world_young - 990 < effective_ttl None demo_world_young
   \<and> get demo_ext ''k'' (Some (1 / 10)) demo_world_young = (Inr PNone, incr_misses demo_world_young)"
proof -
  have e: "map_of (data_dir demo_world_young) (get_cache_path ''k'')
             = Some \<lparr>mtime = 990, content = ''p1''\<rparr>"
    by (simp add: demo_world_young_def demo_world_def get_cache_path_def)
  have l: "pickle_loads demo_ext (content \<lparr>mtime = 990, content = ''p1''\<rparr>) = Some (PInt 1)"
    by (simp add: demo_ext_def demo_loads_def demo_pickles_def)
  have n: "now demo_world_young = 1000" "default_ttl demo_world_young = 1800"
    by (simp_all add: demo_world_young_def demo_world_def)
  show ?thesis
    using ttl_validity [OF e l, of None 1790 None]
      ttl_validity [OF e l, of "Some (1 / 10)" 4 None] e l n
    by (simp add: effective_ttl_def)
qed


text \<open>
  As stated, with the reader's TTL used whenever one is supplied, C3 fails for a supplied
  TTL of zero: \<open>now - stored_at < 0\<close> is false for the entry written 10 seconds ago, yet
  the read is a hit, because zero falls back to the default of 30 minutes.
\<close>

theorem ttl_zero_counterexample:
  "get demo_ext ''k'' (Some 0) demo_world_young = (Inr (PInt 1), incr_hits demo_world_young)
   \<and> map_of (data_dir demo_world_young) (get_cache_path ''k'') = Some \<lparr>mtime = 990, content = ''p1''\<rparr>
   \<and> \<not> (now demo_world_young - 990 < 0 * 60)"
  by (simp add: get_eq demo_world_young_def demo_world_def get_cache_path_def effective_ttl_def
      demo_ext_def demo_loads_def demo_pickles_def)

section \<open>The expiry sweep\<close>

text \<open>
  C4. \<^verbatim>\<open>clear_expired\<close> removes exactly the stored entries (the \<^verbatim>\<open>.pkl\<close> files of the data
  directory) whose age fails the store-default TTL check, whatever per-read TTL a reader
  used for them, removes their metadata, and returns how many it removed. An entry read
  under a 120-minute per-call TTL is still a hit after 30 minutes, and a sweep under the
  30-minute store default removes it before 120 minutes have passed.
\<close>

theorem clear_expired_sweep:
  assumes "distinct (map fst (data_dir w))"
  shows "clear_expired w =
           (length (filter (\<lambda>(fn, f). expired w fn) (data_dir w)),
            w\<lparr>data_dir := filter (\<lambda>(fn, f). \<not> expired w fn) (data_dir w),
              meta_dir := filter (\<lambda>(fn, m). \<not> (fn \<in> fst ` set (data_dir w) \<and> expired w fn))
                            (meta_dir w)\<rparr>)
         \<and> (\<forall>fn f. (fn, f) \<in> set (data_dir w) \<longrightarrow>
               (expired w fn \<longleftrightarrow> endswith fn ''.pkl'' \<and> \<not> (now w - mtime f < default_ttl w)))
         \<and> (map_of (data_dir w) (get_cache_path k) = Some f
              \<and> pickle_loads X (content f) = Some v
              \<and> default_ttl w = 30 * 60 \<and> 30 * 60 < now w - mtime f \<and> now w - mtime f < 120 * 60
              \<longrightarrow> get X k (Some 120) w = (Inr v, incr_hits w)
                  \<and> map_of (data_dir (snd (clear_expired w))) (get_cache_path k) = None)"
proof -
  have names: "distinct (map fst (data_dir w))" by (rule assms)
  have len: "length (filter (expired w) (map fst (data_dir w)))
             = length (filter (\<lambda>(fn, f). expired w fn) (data_dir w))"
    by (induction "data_dir w") (auto simp: filter_map comp_def case_prod_unfold)
  have dd: "filter (\<lambda>(fn, f). \<not> (fn \<in> set (map fst (data_dir w)) \<and> expired w fn)) (data_dir w)
            = filter (\<lambda>(fn, f). \<not> expired w fn) (data_dir w)"
    by (rule filter_cong) force+
  have eq: "clear_expired w =
           (length (filter (\<lambda>(fn, f). expired w fn) (data_dir w)),
            w\<lparr>data_dir := filter (\<lambda>(fn, f). \<not> expired w fn) (data_dir w),
              meta_dir := filter (\<lambda>(fn, m). \<not> (fn \<in> fst ` set (data_dir w) \<and> expired w fn))
                            (meta_dir w)\<rparr>)"
    unfolding clear_expired_def clear_loop_spec [OF names] len dd by simp
  have age: "\<forall>fn f. (fn, f) \<in> set (data_dir w) \<longrightarrow>
               (expired w fn \<longleftrightarrow> endswith fn ''.pkl'' \<and> \<not> (now w - mtime f < default_ttl w))"
    using expired_age [OF assms] by blast
  have ex: "map_of (data_dir w) (get_cache_path k) = Some f
              \<and> pickle_loads X (content f) = Some v
              \<and> default_ttl w = 30 * 60 \<and> 30 * 60 < now w - mtime f \<and> now w - mtime f < 120 * 60
              \<longrightarrow> get X k (Some 120) w = (Inr v, incr_hits w)
                  \<and> map_of (data_dir (snd (clear_expired w))) (get_cache_path k) = None"
  proof (intro impI conjI)
    assume h: "map_of (data_dir w) (get_cache_path k) = Some f
              \<and> pickle_loads X (content f) = Some v
              \<and> default_ttl w = 30 * 60 \<and> 30 * 60 < now w - mtime f \<and> now w - mtime f < 120 * 60"
    then show "get X k (Some 120) w = (Inr v, incr_hits w)"
      by (simp add: get_eq effective_ttl_def)
    have "expired w (get_cache_path k)"
      using h by (simp add: expired_def endswith_cache_path is_cache_valid_def or_default_def)
    then show "map_of (data_dir (snd (clear_expired w))) (get_cache_path k) = None"
      by (simp add: eq map_of_filter_fst)
  qed
  show ?thesis using eq age ex by blast
qed


theorem clear_expired_sweep_witness:
  "distinct (map fst (data_dir demo_world_old))
   \<and> clear_expired demo_world_old =
       (1, demo_world_old\<lparr>data_dir := [(''j.pkl'', \<lparr>mtime = 2900, content = ''p0''\<rparr>),
                                         (''notes.txt'', \<lparr>mtime = 0, content = []\<rparr>)],
                           meta_dir := []\<rparr>)
   \<and> map_of (data_dir demo_world_old) (get_cache_path ''k'') = Some \<lparr>mtime = 300, content = ''p1''\<rparr>
   \<and> pickle_loads demo_ext ''p1'' = Some (PInt 1)
   \<and> default_ttl demo_world_old = 30 * 60
   \<and> 30 * 60 < now demo_world_old - 300
   \<and> now demo_world_old - 300 < 120 * 60
   \<and> get demo_ext ''k'' (Some 120) demo_world_old = (Inr (PInt 1), incr_hits demo_world_old)
   \<and> map_of (data_dir (snd (clear_expired demo_world_old))) (get_cache_path ''k'') = None"
proof -
  have d: "distinct (map fst (data_dir demo_world_old))"
    by (simp add: demo_world_old_simps)
  have e: "map_of (data_dir demo_world_old) (get_cache_path ''k'')
             = Some \<lparr>mtime = 300, content = ''p1''\<rparr>"
    by (simp add: demo_world_old_simps get_cache_path_def)
  have l: "pickle_loads demo_ext (content \<lparr>mtime = 300, content = ''p1''\<rparr>) = Some (PInt 1)"
    by (simp add: demo_ext_def demo_loads_def demo_pickles_def)
  have t: "default_ttl demo_world_old = 30 * 60"
    "30 * 60 < now demo_world_old - mtime \<lparr>mtime = 300, content = ''p1''\<rparr>"
    "now demo_world_old - mtime \<lparr>mtime = 300, content = ''p1''\<rparr> < 120 * 60"
    by (simp_all add: demo_world_old_simps)
  note th = clear_expired_sweep [OF d, of "''k''" "\<lparr>mtime = 300, content = ''p1''\<rparr>" demo_ext "PInt 1"]
  from th have "clear_expired demo_world_old =
           (length (filter (\<lambda>(fn, f). expired demo_world_old fn) (data_dir demo_world_old)),
            demo_world_old\<lparr>data_dir := filter (\<lambda>(fn, f). \<not> expired demo_world_old fn) (data_dir demo_world_old),
              meta_dir := filter (\<lambda>(fn, m). \<not> (fn \<in> fst ` set (data_dir demo_world_old) \<and> expired demo_world_old fn))
                            (meta_dir demo_world_old)\<rparr>)"
    by blast
  then have c1: "clear_expired demo_world_old =
       (1, demo_world_old\<lparr>data_dir := [(''j.pkl'', \<lparr>mtime = 2900, content = ''p0''\<rparr>),
                                         (''notes.txt'', \<lparr>mtime = 0, content = []\<rparr>)],
                           meta_dir := []\<rparr>)"
    by (simp add: demo_old_expired demo_world_old_simps)
  from th e l t have c2: "get demo_ext ''k'' (Some 120) demo_world_old = (Inr (PInt 1), incr_hits demo_world_old)
     \<and> map_of (data_dir (snd (clear_expired demo_world_old))) (get_cache_path ''k'') = None"
    by blast
  have l': "pickle_loads demo_ext ''p1'' = Some (PInt 1)" using l by simp
  have t': "30 * 60 < now demo_world_old - 300" "now demo_world_old - 300 < 120 * 60"
    using t by simp_all
  show ?thesis using d c1 e l' t(1) t' c2 by blast
qed

section \<open>Round trip\<close>

text \<open>
  C6. For every key and every payload that pickle can write and read back, \<^verbatim>\<open>set(k, v)\<close>
  followed by \<^verbatim>\<open>get(k)\<close> returns \<open>v\<close> unchanged, the read occurring \<open>d\<close> seconds after the
  write with \<open>d\<close> within the TTL the read applies.
\<close>

theorem set_get_roundtrip:
  assumes "pickle_dumps X v = Some b" and "pickle_loads X b = Some v"
    and "0 \<le> d" and "d < effective_ttl ttl_minutes w"
  shows "fst (set_cache X k v w) = Inr PNone
         \<and> get X k ttl_minutes (tick d (snd (set_cache X k v w)))
             = (Inr v, incr_hits (tick d (snd (set_cache X k v w))))"
proof -
  let ?w1 = "snd (set_cache X k v w)"
  have s: "fst (set_cache X k v w) = Inr PNone"
    using assms(1) by (simp add: set_cache_eq)
  have f: "map_of (data_dir (tick d ?w1)) (get_cache_path k) = Some \<lparr>mtime = now w, content = b\<rparr>"
    using assms(1) by (simp add: set_cache_eq tick_simps incr_saves_def update_conv')
  have n: "now (tick d ?w1) = now w + d"
    using assms(1) by (simp add: set_cache_eq tick_simps incr_saves_def)
  have t: "effective_ttl ttl_minutes (tick d ?w1) = effective_ttl ttl_minutes w"
    using assms(1) by (intro effective_ttl_cong) (simp add: set_cache_eq tick_simps incr_saves_def)
  have "get X k ttl_minutes (tick d ?w1) = (Inr v, incr_hits (tick d ?w1))"
    using assms(2-4) by (simp add: get_eq f n t)
  with s show ?thesis by blast
qed

theorem set_get_roundtrip_witness:
  "pickle_dumps demo_ext demo_nested = Some ''p2'' \<and> pickle_loads demo_ext ''p2'' = Some demo_nested
   \<and> (0::real) \<le> 0 \<and> 0 < effective_ttl None demo_world
   \<and> get demo_ext ''k'' None (tick 0 (snd (set_cache demo_ext ''k'' demo_nested demo_world)))
       = (Inr demo_nested, incr_hits (tick 0 (snd (set_cache demo_ext ''k'' demo_nested demo_world))))
   \<and> pickle_dumps demo_ext (PInt 1) = Some ''p1'' \<and> pickle_loads demo_ext ''p1'' = Some (PInt 1)
   \<and> (0::real) \<le> 60 \<and> 60 < effective_ttl (Some 15) demo_world
   \<and> get demo_ext ''k'' (Some 15) (tick 60 (snd (set_cache demo_ext ''k'' (PInt 1) demo_world)))
       = (Inr (PInt 1), incr_hits (tick 60 (snd (set_cache demo_ext ''k'' (PInt 1) demo_world))))"
proof -
  have a: "pickle_dumps demo_ext demo_nested = Some ''p2''"
    by (simp add: demo_ext_simps demo_codebook demo_codebook_outside)
  have b: "pickle_loads demo_ext ''p2'' = Some demo_nested"
    by (simp add: demo_ext_def demo_loads_def demo_pickles_def)
  have c: "(0::real) \<le> 0" by simp
  have d: "0 < effective_ttl None demo_world" by (simp add: effective_ttl_def demo_world_def)
  have a': "pickle_dumps demo_ext (PInt 1) = Some ''p1''"
    by (simp add: demo_ext_simps demo_codebook demo_codebook_outside)
  have b': "pickle_loads demo_ext ''p1'' = Some (PInt 1)"
    by (simp add: demo_ext_def demo_loads_def demo_pickles_def)
  have c': "(0::real) \<le> 60" by simp
  have d': "60 < effective_ttl (Some 15) demo_world" by (simp add: effective_ttl_def demo_world_def)
  show ?thesis
    using set_get_roundtrip [OF a b c d, of "''k''"] set_get_roundtrip [OF a' b' c' d', of "''k''"]
      a b c d a' b' c' d' by blast
qed

section \<open>Failures of the store are swallowed\<close>

text \<open>
  C7. \<^verbatim>\<open>get\<close> and \<^verbatim>\<open>set\<close> never raise to the caller. A fresh record that cannot be read
  makes \<^verbatim>\<open>get\<close> return \<^verbatim>\<open>None\<close> and increments the error counter; a payload that cannot
  be written makes \<^verbatim>\<open>set\<close> return normally and increments the error counter, the
  other counters unchanged.
\<close>

theorem get_set_never_raise:
  "(\<exists>v w'. get X k ttl_minutes w = (Inr v, w'))
   \<and> (\<exists>w'. set_cache X k data w = (Inr PNone, w'))
   \<and> (map_of (data_dir w) (get_cache_path k) = Some f
        \<and> now w - mtime f < effective_ttl ttl_minutes w
        \<and> pickle_loads X (content f) = None
        \<longrightarrow> get X k ttl_minutes w = (Inr PNone, incr_errors w))
   \<and> (pickle_dumps X data = None
        \<longrightarrow> (\<exists>w'. set_cache X k data w = (Inr PNone, incr_errors w')
                  \<and> stats w' = stats w \<and> meta_dir w' = meta_dir w))"
proof (intro conjI impI)
  show "\<exists>v w'. get X k ttl_minutes w = (Inr v, w')"
    by (simp add: get_eq split: option.splits)
  show "\<exists>w'. set_cache X k data w = (Inr PNone, w')"
    by (simp add: set_cache_eq split: option.splits)
next
  assume "map_of (data_dir w) (get_cache_path k) = Some f
        \<and> now w - mtime f < effective_ttl ttl_minutes w
        \<and> pickle_loads X (content f) = None"
  then show "get X k ttl_minutes w = (Inr PNone, incr_errors w)"
    by (simp add: get_eq)
next
  let ?w' = "w\<lparr>data_dir := AList.update (get_cache_path k)
                          \<lparr>mtime = now w, content = []\<rparr> (data_dir w)\<rparr>"
  assume "pickle_dumps X data = None"
  then have "set_cache X k data w = (Inr PNone, incr_errors ?w')
             \<and> stats ?w' = stats w \<and> meta_dir ?w' = meta_dir w"
    by (simp add: set_cache_eq)
  then show "\<exists>w'. set_cache X k data w = (Inr PNone, incr_errors w')
                  \<and> stats w' = stats w \<and> meta_dir w' = meta_dir w"
    by blast
qed

theorem get_set_never_raise_witness:
  "map_of (data_dir demo_world_corrupt) (get_cache_path ''k'') = Some \<lparr>mtime = 990, content = ''garbage''\<rparr>
   \<and> now demo_world_corrupt - 990 < effective_ttl None demo_world_corrupt
   \<and> pickle_loads demo_ext ''garbage'' = None
   \<and> get demo_ext ''k'' None demo_world_corrupt = (Inr PNone, incr_errors demo_world_corrupt)
   \<and> pickle_dumps demo_ext (PInt 2) = None
   \<and> fst (set_cache demo_ext ''k'' (PInt 2) demo_world) = Inr PNone
   \<and> errors (stats (snd (set_cache demo_ext ''k'' (PInt 2) demo_world))) = 1
   \<and> saves (stats (snd (set_cache demo_ext ''k'' (PInt 2) demo_world))) = 0"
proof -
  have e: "map_of (data_dir demo_world_corrupt) (get_cache_path ''k'')
            = Some \<lparr>mtime = 990, content = ''garbage''\<rparr>"
    by (simp add: demo_world_corrupt_def demo_world_def get_cache_path_def)
  have a: "now demo_world_corrupt - mtime \<lparr>mtime = 990, content = ''garbage''\<rparr>
             < effective_ttl None demo_world_corrupt"
    by (simp add: demo_world_corrupt_def demo_world_def effective_ttl_def)
  have l: "pickle_loads demo_ext (content \<lparr>mtime = 990, content = ''garbage''\<rparr>) = None"
    by (simp add: demo_ext_def demo_loads_def demo_pickles_def)
  have p: "pickle_dumps demo_ext (PInt 2) = None"
    by (simp add: demo_ext_simps demo_codebook demo_codebook_outside)
  note th = get_set_never_raise [of demo_ext "''k''" None demo_world_corrupt "PInt 2"
      "\<lparr>mtime = 990, content = ''garbage''\<rparr>"]
  note th2 = get_set_never_raise [of demo_ext "''k''" None demo_world "PInt 2"
      "\<lparr>mtime = 990, content = ''garbage''\<rparr>"]
  from th e a l have g: "get demo_ext ''k'' None demo_world_corrupt = (Inr PNone, incr_errors demo_world_corrupt)"
    by blast
  from th2 p obtain w' where s: "set_cache demo_ext ''k'' (PInt 2) demo_world = (Inr PNone, incr_errors w')"
    and st: "stats w' = stats demo_world" by blast
  have s1: "fst (set_cache demo_ext ''k'' (PInt 2) demo_world) = Inr PNone" by (simp add: s)
  have z: "errors (stats demo_world) = 0" "saves (stats demo_world) = 0"
    by (simp_all add: demo_world_def)
  have s2: "errors (stats (snd (set_cache demo_ext ''k'' (PInt 2) demo_world))) = 1"
    by (simp add: s incr_errors_def st z)
  have s3: "saves (stats (snd (set_cache demo_ext ''k'' (PInt 2) demo_world))) = 0"
    by (simp add: s incr_errors_def st z)
  have a': "now demo_world_corrupt - 990 < effective_ttl None demo_world_corrupt" using a by simp
  have l': "pickle_loads demo_ext ''garbage'' = None" using l by simp
  show ?thesis using e a' l' g p s1 s2 s3 by blast
qed

section \<open>The memoizing decorator\<close>

text \<open>
  C1, amended. For every wrapped operation and argument list: if the lookup for the
  derived key hits with a payload other than \<^verbatim>\<open>None\<close>, the wrapper returns the cached
  payload and the operation is not invoked (the result does not depend on it); if
  \<^verbatim>\<open>get\<close> returns \<^verbatim>\<open>None\<close>, the operation is invoked in the world \<^verbatim>\<open>get\<close> left, and on
  success its result is passed to \<^verbatim>\<open>set\<close> under that key and returned, while if it
  raises, the exception propagates and the world is as the operation left it.
\<close>

theorem cached_operation_contract:
  assumes "cache_key = generate_cache_key X (PStr func_name # args) kwargs"
  shows "(map_of (data_dir w) (get_cache_path cache_key) = Some f
          \<and> now w - mtime f < effective_ttl (Some ttl) w
          \<and> pickle_loads X (content f) = Some c \<and> c \<noteq> PNone
          \<longrightarrow> cached_operation X ttl func_name func args kwargs w = (Inr c, incr_hits w))
       \<and> (get X cache_key (Some ttl) w = (Inr PNone, w1) \<and> func args kwargs w1 = (Inr r, w2)
          \<longrightarrow> cached_operation X ttl func_name func args kwargs w
                = (Inr r, snd (set_cache X cache_key r w2))
              \<and> (\<forall>b. pickle_dumps X r = Some b \<longrightarrow>
                    map_of (data_dir (snd (set_cache X cache_key r w2))) (get_cache_path cache_key)
                      = Some \<lparr>mtime = now w2, content = b\<rparr>))
       \<and> (get X cache_key (Some ttl) w = (Inr PNone, w1) \<and> func args kwargs w1 = (Inl e, w2)
          \<longrightarrow> cached_operation X ttl func_name func args kwargs w = (Inl e, w2))"
proof (intro conjI impI allI)
  assume "map_of (data_dir w) (get_cache_path cache_key) = Some f
          \<and> now w - mtime f < effective_ttl (Some ttl) w
          \<and> pickle_loads X (content f) = Some c \<and> c \<noteq> PNone"
  then show "cached_operation X ttl func_name func args kwargs w = (Inr c, incr_hits w)"
    using assms by (simp add: cached_operation_eq get_eq)
next
  assume h: "get X cache_key (Some ttl) w = (Inr PNone, w1) \<and> func args kwargs w1 = (Inr r, w2)"
  then show "cached_operation X ttl func_name func args kwargs w
                = (Inr r, snd (set_cache X cache_key r w2))"
    using assms by (simp add: cached_operation_eq)
next
  fix b
  assume "pickle_dumps X r = Some b"
  then show "map_of (data_dir (snd (set_cache X cache_key r w2))) (get_cache_path cache_key)
                      = Some \<lparr>mtime = now w2, content = b\<rparr>"
    by (simp add: set_cache_eq incr_saves_def update_conv')
next
  assume "get X cache_key (Some ttl) w = (Inr PNone, w1) \<and> func args kwargs w1 = (Inl e, w2)"
  then show "cached_operation X ttl func_name func args kwargs w = (Inl e, w2)"
    using assms by (simp add: cached_operation_eq)
qed

theorem cached_operation_contract_witness:
  "demo_key = generate_cache_key demo_ext (PStr ''op'' # []) []
   \<and> map_of (data_dir demo_world_hit) (get_cache_path demo_key) = Some \<lparr>mtime = 990, content = ''p1''\<rparr>
   \<and> now demo_world_hit - 990 < effective_ttl (Some 30) demo_world_hit
   \<and> pickle_loads demo_ext ''p1'' = Some (PInt 1) \<and> PInt 1 \<noteq> PNone
   \<and> cached_operation demo_ext 30 ''op'' demo_failing_op [] [] demo_world_hit
       = (Inr (PInt 1), incr_hits demo_world_hit)
   \<and> get demo_ext demo_key (Some 30) demo_world = (Inr PNone, incr_misses demo_world)
   \<and> demo_one_op [] [] (incr_misses demo_world)
       = (Inr (PInt 1), (incr_misses demo_world)\<lparr>rng_pos := 1\<rparr>)
   \<and> cached_operation demo_ext 30 ''op'' demo_one_op [] [] demo_world
       = (Inr (PInt 1), snd (set_cache demo_ext demo_key (PInt 1) ((incr_misses demo_world)\<lparr>rng_pos := 1\<rparr>)))
   \<and> pickle_dumps demo_ext (PInt 1) = Some ''p1''
   \<and> map_of (data_dir (snd (set_cache demo_ext demo_key (PInt 1) ((incr_misses demo_world)\<lparr>rng_pos := 1\<rparr>))))
        (get_cache_path demo_key) = Some \<lparr>mtime = 1000, content = ''p1''\<rparr>
   \<and> demo_failing_op [] [] (incr_misses demo_world)
       = (Inl (RemoteError ''backend unavailable''), incr_misses demo_world)
   \<and> cached_operation demo_ext 30 ''op'' demo_failing_op [] [] demo_world
       = (Inl (RemoteError ''backend unavailable''), incr_misses demo_world)"
proof -
  have k: "demo_key = generate_cache_key demo_ext (PStr ''op'' # []) []"
    by (simp add: demo_key_def)
  have e: "map_of (data_dir demo_world_hit) (get_cache_path demo_key)
             = Some \<lparr>mtime = 990, content = ''p1''\<rparr>"
    by (simp add: demo_world_hit_def)
  have a: "now demo_world_hit - mtime \<lparr>mtime = 990, content = ''p1''\<rparr>
             < effective_ttl (Some 30) demo_world_hit"
    by (simp add: demo_world_hit_def demo_world_simps effective_ttl_def)
  have l: "pickle_loads demo_ext (content \<lparr>mtime = 990, content = ''p1''\<rparr>) = Some (PInt 1)"
    by (simp add: demo_ext_simps demo_codebook demo_codebook_outside)
  have g: "get demo_ext demo_key (Some 30) demo_world = (Inr PNone, incr_misses demo_world)"
    by (simp add: get_eq demo_world_simps)
  have o1: "demo_one_op [] [] (incr_misses demo_world)
       = (Inr (PInt 1), (incr_misses demo_world)\<lparr>rng_pos := 1\<rparr>)"
    by (simp add: demo_draw incr_misses_def demo_world_simps)
  have o2: "demo_failing_op [] [] (incr_misses demo_world)
       = (Inl (RemoteError ''backend unavailable''), incr_misses demo_world)"
    by (simp add: demo_draw)
  have p: "pickle_dumps demo_ext (PInt 1) = Some ''p1''"
    by (simp add: demo_ext_simps demo_codebook demo_codebook_outside)
  have n: "now ((incr_misses demo_world)\<lparr>rng_pos := 1\<rparr>) = 1000"
    by (simp add: incr_misses_def demo_world_simps)
  note t1 = cached_operation_contract [OF k, where w = demo_world_hit
      and f = "\<lparr>mtime = 990, content = ''p1''\<rparr>" and ttl = 30 and c = "PInt 1"
      and func = demo_failing_op]
  note t2 = cached_operation_contract [OF k, where w = demo_world and ttl = 30
      and func = demo_one_op and ?w1.0 = "incr_misses demo_world" and r = "PInt 1"
      and ?w2.0 = "(incr_misses demo_world)\<lparr>rng_pos := 1\<rparr>"]
  note t3 = cached_operation_contract [OF k, where w = demo_world and ttl = 30
      and func = demo_failing_op and ?w1.0 = "incr_misses demo_world"
      and e = "RemoteError ''backend unavailable''" and ?w2.0 = "incr_misses demo_world"]
  from t1 e a l have c1: "cached_operation demo_ext 30 ''op'' demo_failing_op [] [] demo_world_hit
       = (Inr (PInt 1), incr_hits demo_world_hit)" by blast
  from t2 g o1 have c2: "cached_operation demo_ext 30 ''op'' demo_one_op [] [] demo_world
       = (Inr (PInt 1), snd (set_cache demo_ext demo_key (PInt 1) ((incr_misses demo_world)\<lparr>rng_pos := 1\<rparr>)))"
    by blast
  from t2 g o1 p have c2': "map_of (data_dir (snd (set_cache demo_ext demo_key (PInt 1)
        ((incr_misses demo_world)\<lparr>rng_pos := 1\<rparr>)))) (get_cache_path demo_key)
      = Some \<lparr>mtime = now ((incr_misses demo_world)\<lparr>rng_pos := 1\<rparr>), content = ''p1''\<rparr>"
    by blast
  from t3 g o2 have c3: "cached_operation demo_ext 30 ''op'' demo_failing_op [] [] demo_world
       = (Inl (RemoteError ''backend unavailable''), incr_misses demo_world)" by blast
  have a': "now demo_world_hit - 990 < effective_ttl (Some 30) demo_world_hit" using a by simp
  have l': "pickle_loads demo_ext ''p1'' = Some (PInt 1)" using l by simp
  have c2'': "map_of (data_dir (snd (set_cache demo_ext demo_key (PInt 1)
        ((incr_misses demo_world)\<lparr>rng_pos := 1\<rparr>)))) (get_cache_path demo_key)
      = Some \<lparr>mtime = 1000, content = ''p1''\<rparr>" using c2' n by simp
  have ne: "PInt 1 \<noteq> PNone" by simp
  show ?thesis using k e a' l' ne c1 g o1 c2 p c2'' o2 c3 by blast
qed


text \<open>
  As stated, C1 fails when the cached payload is \<^verbatim>\<open>None\<close>: after a first call has stored
  the \<^verbatim>\<open>None\<close> returned by the operation, the second lookup is a hit (a fresh, readable
  entry; the hit counter is incremented), yet the operation runs again: it has made a
  second random draw.
\<close>

theorem cached_none_counterexample:
  "map_of (data_dir demo_world_none) (get_cache_path demo_key) = Some \<lparr>mtime = 1000, content = ''p0''\<rparr>
   \<and> now demo_world_none - 1000 < effective_ttl (Some 30) demo_world_none
   \<and> pickle_loads demo_ext ''p0'' = Some PNone
   \<and> get demo_ext demo_key (Some 30) demo_world_none = (Inr PNone, incr_hits demo_world_none)
   \<and> rng_pos demo_world_none = 1
   \<and> rng_pos (snd (cached_operation demo_ext 30 ''op'' demo_none_op [] [] demo_world_none)) = 2"
  by (simp add: demo_world_none_eq cached_operation_eq get_eq set_cache_eq demo_key_def [symmetric]
      demo_world_simps demo_draw incr_hits_def incr_saves_def effective_ttl_def
      demo_ext_simps demo_codebook)

section \<open>The risk index\<close>

text \<open>
  C5, amended. For all float inputs temperature, ndvi and nddi read from the two
  aggregates, \<^verbatim>\<open>calculate_dust_risk\<close> computes, in binary64 arithmetic where every operation
  rounds its result (\<open>fl\<close>) and a decimal literal stands for the nearest double,
  \<open>temp_factor = max 0 (fl (fl (temperature - 25) / 20))\<close>,
  \<open>veg_factor = max 0 (fl (1 - ndvi))\<close>, \<open>dust_factor = max 0 (fl (nddi + fl 0.1))\<close>, the index
  \<open>fl (fl (fl (fl 0.4 * dust_factor) + fl (fl 0.3 * temp_factor)) + fl (fl 0.3 * veg_factor))\<close>
  clamped to \<open>[0, 1]\<close>, and the level \<^verbatim>\<open>high\<close> iff the index exceeds the double 0.6,
  \<^verbatim>\<open>moderate\<close> iff it lies above the double 0.3 and not above the double 0.6, else \<^verbatim>\<open>low\<close>.
  For the doubles 30, 0.1 and 0.2 the factors are 0.25, the double 0.9 and
  \<^verbatim>\<open>0.30000000000000004\<close>, the index is the double 0.465 and the level \<^verbatim>\<open>moderate\<close>.
\<close>

theorem calculate_dust_risk_formula:
  assumes "subscript modis_data ''lst_day_mean'' = Inr (PFloat temperature)"
    and "subscript landsat_data ''ndvi_mean'' = Inr (PFloat ndvi)"
    and "subscript landsat_data ''nddi_mean'' = Inr (PFloat nddi)"
  shows "\<exists>temp_factor veg_factor dust_factor index level.
           calculate_dust_risk_body modis_data landsat_data =
             Inr (PDict [(''dust_risk_index'', PFloat index),
                         (''risk_level'', PStr level),
                         (''temperature_factor'', PFloat temp_factor),
                         (''vegetation_factor'', PFloat veg_factor),
                         (''dust_factor'', PFloat dust_factor)])
           \<and> temp_factor = max 0 (fl (fl (temperature - 25) / 20))
           \<and> veg_factor = max 0 (fl (1 - ndvi))
           \<and> dust_factor = max 0 (fl (nddi + fl 0.1))
           \<and> index = max 0 (min 1 (fl (fl (fl (fl 0.4 * dust_factor) + fl (fl 0.3 * temp_factor))
                                        + fl (fl 0.3 * veg_factor))))
           \<and> 0 \<le> index \<and> index \<le> 1
           \<and> (level = ''high'' \<longleftrightarrow> index > fl 0.6)
           \<and> (level = ''moderate'' \<longleftrightarrow> fl 0.3 < index \<and> index \<le> fl 0.6)
           \<and> (level = ''low'' \<longleftrightarrow> index \<le> fl 0.3)"
proof -
  define temp_factor where "temp_factor = max 0 (fl (fl (temperature - 25) / 20))"
  define veg_factor where "veg_factor = max 0 (fl (1 - ndvi))"
  define dust_factor where "dust_factor = max 0 (fl (nddi + fl 0.1))"
  define total where
    "total = fl (fl (fl (fl 0.4 * dust_factor) + fl (fl 0.3 * temp_factor)) + fl (fl 0.3 * veg_factor))"
  define index where "index = max 0 (min 1 total)"
  define clamped where "clamped = num_max (NInt 0) (num_min (NInt 1) (NFloat total))"
  have tf: "to_float clamped = index" and nr: "num_real clamped = index"
    by (simp_all add: clamped_def index_def clamp_to_float clamp_num_real)
  have eq: "calculate_dust_risk_body modis_data landsat_data =
             Inr (PDict [(''dust_risk_index'', PFloat (to_float clamped)),
                         (''risk_level'', PStr (risk_level_of clamped)),
                         (''temperature_factor'', PFloat temp_factor),
                         (''vegetation_factor'', PFloat veg_factor),
                         (''dust_factor'', PFloat dust_factor)])"
    using assms
    by (simp add: calculate_dust_risk_body_def bind_exn_def as_num_def fl_small_ints Let_def
        to_float_max0 mul_max0 clamped_def total_def temp_factor_def veg_factor_def
        dust_factor_def)
  have b: "0 \<le> index \<and> index \<le> 1"
    by (simp add: index_def)
  have h: "risk_level_of clamped = ''high'' \<longleftrightarrow> index > fl 0.6"
    by (simp add: risk_level_of_def nr)
  have m: "risk_level_of clamped = ''moderate'' \<longleftrightarrow> fl 0.3 < index \<and> index \<le> fl 0.6"
    by (simp add: risk_level_of_def nr)
  have l: "risk_level_of clamped = ''low'' \<longleftrightarrow> index \<le> fl 0.3"
    using risk_thresholds by (auto simp: risk_level_of_def nr)
  show ?thesis
    using eq b h m l tf temp_factor_def veg_factor_def dust_factor_def
    unfolding index_def total_def by metis
qed

theorem calculate_dust_risk_formula_witness:
  "subscript demo_modis ''lst_day_mean'' = Inr (PFloat 30)
   \<and> subscript demo_landsat ''ndvi_mean'' = Inr (PFloat (fl 0.1))
   \<and> subscript demo_landsat ''nddi_mean'' = Inr (PFloat (fl 0.2))
   \<and> calculate_dust_risk_body demo_modis demo_landsat =
       Inr (PDict [(''dust_risk_index'', PFloat (fl 0.465)),
                   (''risk_level'', PStr ''moderate''),
                   (''temperature_factor'', PFloat 0.25),
                   (''vegetation_factor'', PFloat (fl 0.9)),
                   (''dust_factor'', PFloat (1351079888211149 / 4503599627370496))])"
proof -
  have a: "subscript demo_modis ''lst_day_mean'' = Inr (PFloat 30)"
    by (simp add: subscript_def dict_subscript_def demo_modis_def)
  have b: "subscript demo_landsat ''ndvi_mean'' = Inr (PFloat (fl 0.1))"
    by (simp add: subscript_def dict_subscript_def demo_landsat_def)
  have c: "subscript demo_landsat ''nddi_mean'' = Inr (PFloat (fl 0.2))"
    by (simp add: subscript_def dict_subscript_def demo_landsat_def)
  from calculate_dust_risk_formula [OF a b c]
  obtain temp_factor veg_factor dust_factor index level where
    r: "calculate_dust_risk_body demo_modis demo_landsat =
             Inr (PDict [(''dust_risk_index'', PFloat index),
                         (''risk_level'', PStr level),
                         (''temperature_factor'', PFloat temp_factor),
                         (''vegetation_factor'', PFloat veg_factor),
                         (''dust_factor'', PFloat dust_factor)])"
    and t: "temp_factor = max 0 (fl (fl (30 - 25) / 20))"
    and v: "veg_factor = max 0 (fl (1 - fl 0.1))"
    and d: "dust_factor = max 0 (fl (fl 0.2 + fl 0.1))"
    and i: "index = max 0 (min 1 (fl (fl (fl (fl 0.4 * dust_factor) + fl (fl 0.3 * temp_factor))
                                        + fl (fl 0.3 * veg_factor))))"
    and m: "level = ''moderate'' \<longleftrightarrow> fl 0.3 < index \<and> index \<le> fl 0.6"
    by blast
  have t': "temp_factor = 0.25" unfolding t by (simp add: fl_eval)
  have v': "veg_factor = 8106479329266893 / 9007199254740992" unfolding v by (simp add: fl_eval)
  have d': "dust_factor = 1351079888211149 / 4503599627370496" unfolding d by (simp add: fl_eval)
  have i': "index = 8376695306909123 / 18014398509481984"
    unfolding i t' v' d' by (simp add: fl_eval)
  have m': "level = ''moderate''" using m unfolding i' by (simp add: fl_literals)
  have "calculate_dust_risk_body demo_modis demo_landsat =
       Inr (PDict [(''dust_risk_index'', PFloat (fl 0.465)),
                   (''risk_level'', PStr ''moderate''),
                   (''temperature_factor'', PFloat 0.25),
                   (''vegetation_factor'', PFloat (fl 0.9)),
                   (''dust_factor'', PFloat (1351079888211149 / 4503599627370496))])"
    unfolding r i' m' t' v' d' by (simp add: fl_literals)
  with a b c show ?thesis by blast
qed


text \<open>
  As stated, with exact arithmetic, C5 fails. At the example of the claim the program
  returns the dust factor \<^verbatim>\<open>0.30000000000000004\<close>, which is neither the real 0.3 nor the
  double nearest to it. At temperature 20, ndvi 0 and nddi \<^verbatim>\<open>-0.09999999999999999\<close> the
  program returns the index \<^verbatim>\<open>0.3\<close> and the level \<^verbatim>\<open>low\<close>, while the formula of the claim
  evaluated exactly exceeds 0.3, which would make the level \<^verbatim>\<open>moderate\<close>.
\<close>

theorem dust_factor_counterexample:
  "calculate_dust_risk_body demo_modis demo_landsat = Inr demo_risk
   \<and> subscript demo_risk ''dust_factor'' = Inr (PFloat (1351079888211149 / 4503599627370496))
   \<and> (1351079888211149 / 4503599627370496 :: real) \<noteq> 0.3
   \<and> (1351079888211149 / 4503599627370496 :: real) \<noteq> fl 0.3
   \<and> calculate_dust_risk_body edge_modis edge_landsat =
       Inr (PDict [(''dust_risk_index'', PFloat (fl 0.3)),
                   (''risk_level'', PStr ''low''),
                   (''temperature_factor'', PFloat 0),
                   (''vegetation_factor'', PFloat 1),
                   (''dust_factor'', PFloat (1 / 72057594037927936))])
   \<and> (0.3 :: real) < max 0 (min 1 (0.4 * max 0 (- 7205759403792793 / 72057594037927936 + 0.1)
                                       + 0.3 * max 0 ((20 - 25) / 20) + 0.3 * max 0 (1 - 0)))"
  by (simp add: risk_body_demo risk_body_edge subscript_def dict_subscript_def demo_risk_def
      fl_literals)

section \<open>The orchestration fails soft\<close>

text \<open>
  C8. No exception escapes \<^verbatim>\<open>get_current_conditions\<close>: it always returns a dictionary.
  When a step of the chain raises (the MODIS fetch, the Landsat fetch, the risk
  computation, or the assembly of the results), it returns the error envelope, which
  holds the message of the exception and a snapshot of the cache statistics.
\<close>

theorem get_current_conditions_fail_soft:
  assumes "start_str = ymd (calendar X (now w) (- days_back))"
    and "end_str = ymd (calendar X (now w) 0)"
  shows "(\<exists>r w'. get_current_conditions X self days_back w = (Inr r, w'))
       \<and> (get_current_conditions_try X self days_back w = (Inl e, w')
            \<longrightarrow> get_current_conditions X self days_back w = (Inr (error_envelope e w'), w'))
       \<and> (get_modis_data X self start_str end_str w = (Inl e, w1)
            \<longrightarrow> get_current_conditions X self days_back w = (Inr (error_envelope e w1), w1))
       \<and> (get_modis_data X self start_str end_str w = (Inr modis_data, w1)
            \<and> get_landsat_data X self start_str end_str w1 = (Inl e, w2)
            \<longrightarrow> get_current_conditions X self days_back w = (Inr (error_envelope e w2), w2))
       \<and> (get_modis_data X self start_str end_str w = (Inr modis_data, w1)
            \<and> get_landsat_data X self start_str end_str w1 = (Inr landsat_data, w2)
            \<and> calculate_dust_risk X self modis_data landsat_data w2 = (Inl e, w3)
            \<longrightarrow> get_current_conditions X self days_back w = (Inr (error_envelope e w3), w3))
       \<and> (get_modis_data X self start_str end_str w = (Inr modis_data, w1)
            \<and> get_landsat_data X self start_str end_str w1 = (Inr landsat_data, w2)
            \<and> calculate_dust_risk X self modis_data landsat_data w2 = (Inr risk_data, w3)
            \<and> assemble_results X days_back (now w) modis_data landsat_data risk_data w3 = Inl e
            \<longrightarrow> get_current_conditions X self days_back w = (Inr (error_envelope e w3), w3))
       \<and> map_of (error_envelope e w') ''error'' = Some (PStr (exn_str e))
       \<and> map_of (error_envelope e w') ''cache_stats'' = Some (get_stats w')"
proof (intro conjI impI)
  show "\<exists>r w'. get_current_conditions X self days_back w = (Inr r, w')"
    by (simp add: get_current_conditions_eq split: prod.splits sum.splits)
qed (simp_all add: get_current_conditions_eq get_current_conditions_try_eq assms error_envelope_def)

theorem get_current_conditions_fail_soft_witness:
  "''2025-04-10'' = ymd (calendar demo_ext_down (now demo_world) (- 60))
   \<and> ''2025-04-10'' = ymd (calendar demo_ext_down (now demo_world) 0)
   \<and> get_current_conditions_try demo_ext_down demo_self 60 demo_world
       = (Inl (RemoteError ''backend unavailable''), incr_misses demo_world)
   \<and> get_modis_data demo_ext_down demo_self ''2025-04-10'' ''2025-04-10'' demo_world
       = (Inl (RemoteError ''backend unavailable''), incr_misses demo_world)
   \<and> get_current_conditions demo_ext_down demo_self 60 demo_world
       = (Inr (error_envelope (RemoteError ''backend unavailable'') (incr_misses demo_world)),
          incr_misses demo_world)
   \<and> map_of (error_envelope (RemoteError ''backend unavailable'') (incr_misses demo_world)) ''error''
       = Some (PStr ''backend unavailable'')
   \<and> map_of (error_envelope (RemoteError ''backend unavailable'') (incr_misses demo_world))
        ''cache_stats'' = Some (get_stats (incr_misses demo_world))
   \<and> get_modis_data demo_ext_landsat_down demo_self ''2025-04-10'' ''2025-04-10'' demo_world
       = (Inr demo_modis, stored demo_modis_key ''p4'' ''dict'' demo_world)
   \<and> get_landsat_data demo_ext_landsat_down demo_self ''2025-04-10'' ''2025-04-10''
        (stored demo_modis_key ''p4'' ''dict'' demo_world)
       = (Inl (RemoteError ''landsat unavailable''),
          incr_misses (stored demo_modis_key ''p4'' ''dict'' demo_world))
   \<and> get_current_conditions demo_ext_landsat_down demo_self 60 demo_world
       = (Inr (error_envelope (RemoteError ''landsat unavailable'')
                 (incr_misses (stored demo_modis_key ''p4'' ''dict'' demo_world))),
          incr_misses (stored demo_modis_key ''p4'' ''dict'' demo_world))
   \<and> get_modis_data demo_ext demo_self ''2025-04-10'' ''2025-04-10'' demo_world_bad_modis
       = (Inr (PInt 1), incr_hits demo_world_bad_modis)
   \<and> get_landsat_data demo_ext demo_self ''2025-04-10'' ''2025-04-10'' (incr_hits demo_world_bad_modis)
       = (Inr demo_landsat, stored demo_landsat_key ''p5'' ''dict'' (incr_hits demo_world_bad_modis))
   \<and> calculate_dust_risk demo_ext demo_self (PInt 1) demo_landsat
        (stored demo_landsat_key ''p5'' ''dict'' (incr_hits demo_world_bad_modis))
       = (Inl (TypeError ''int''),
          incr_misses (stored demo_landsat_key ''p5'' ''dict'' (incr_hits demo_world_bad_modis)))
   \<and> get_current_conditions demo_ext demo_self 60 demo_world_bad_modis
       = (Inr (error_envelope (TypeError ''int'')
                 (incr_misses (stored demo_landsat_key ''p5'' ''dict'' (incr_hits demo_world_bad_modis)))),
          incr_misses (stored demo_landsat_key ''p5'' ''dict'' (incr_hits demo_world_bad_modis)))
   \<and> get_modis_data demo_ext demo_self ''2025-04-10'' ''2025-04-10'' demo_world_bad_risk
       = (Inr demo_modis, stored demo_modis_key ''p4'' ''dict'' demo_world_bad_risk)
   \<and> get_landsat_data demo_ext demo_self ''2025-04-10'' ''2025-04-10''
        (stored demo_modis_key ''p4'' ''dict'' demo_world_bad_risk)
       = (Inr demo_landsat,
          stored demo_landsat_key ''p5'' ''dict'' (stored demo_modis_key ''p4'' ''dict'' demo_world_bad_risk))
   \<and> calculate_dust_risk demo_ext demo_self demo_modis demo_landsat
        (stored demo_landsat_key ''p5'' ''dict'' (stored demo_modis_key ''p4'' ''dict'' demo_world_bad_risk))
       = (Inr (PInt 1),
          incr_hits (stored demo_landsat_key ''p5'' ''dict''
                       (stored demo_modis_key ''p4'' ''dict'' demo_world_bad_risk)))
   \<and> assemble_results demo_ext 60 (now demo_world_bad_risk) demo_modis demo_landsat (PInt 1)
        (incr_hits (stored demo_landsat_key ''p5'' ''dict''
                       (stored demo_modis_key ''p4'' ''dict'' demo_world_bad_risk)))
       = Inl (TypeError ''int'')
   \<and> get_current_conditions demo_ext demo_self 60 demo_world_bad_risk
       = (Inr (error_envelope (TypeError ''int'')
                 (incr_hits (stored demo_landsat_key ''p5'' ''dict''
                       (stored demo_modis_key ''p4'' ''dict'' demo_world_bad_risk)))),
          incr_hits (stored demo_landsat_key ''p5'' ''dict''
                       (stored demo_modis_key ''p4'' ''dict'' demo_world_bad_risk)))"
proof -
  let ?e = "RemoteError ''backend unavailable''"
  let ?el = "RemoteError ''landsat unavailable''"
  let ?w1 = "stored demo_modis_key ''p4'' ''dict'' demo_world"
  let ?b1 = "incr_hits demo_world_bad_modis"
  let ?b2 = "stored demo_landsat_key ''p5'' ''dict'' ?b1"
  let ?r1 = "stored demo_modis_key ''p4'' ''dict'' demo_world_bad_risk"
  let ?r2 = "stored demo_landsat_key ''p5'' ''dict'' ?r1"
  have s1: "''2025-04-10'' = ymd (calendar demo_ext_down (now demo_world) (- 60))"
    and e1: "''2025-04-10'' = ymd (calendar demo_ext_down (now demo_world) 0)"
    by (simp_all add: demo_ext_down_simps demo_dates)
  have s2: "''2025-04-10'' = ymd (calendar demo_ext_landsat_down (now demo_world) (- 60))"
    and e2: "''2025-04-10'' = ymd (calendar demo_ext_landsat_down (now demo_world) 0)"
    by (simp_all add: demo_ext_landsat_down_simps demo_dates)
  have s3: "''2025-04-10'' = ymd (calendar demo_ext (now demo_world_bad_modis) (- 60))"
    and e3: "''2025-04-10'' = ymd (calendar demo_ext (now demo_world_bad_modis) 0)"
    by (simp_all add: demo_ext_simps demo_dates)
  have s4: "''2025-04-10'' = ymd (calendar demo_ext (now demo_world_bad_risk) (- 60))"
    and e4: "''2025-04-10'' = ymd (calendar demo_ext (now demo_world_bad_risk) 0)"
    by (simp_all add: demo_ext_simps demo_dates)
  have m1: "get_modis_data demo_ext_down demo_self ''2025-04-10'' ''2025-04-10'' demo_world
       = (Inl ?e, incr_misses demo_world)"
    by (rule modis_down_miss) (simp add: demo_world_simps)
  have t1: "get_current_conditions_try demo_ext_down demo_self 60 demo_world
       = (Inl ?e, incr_misses demo_world)"
    using m1 by (simp add: get_current_conditions_try_eq demo_ext_down_simps demo_dates)
  have m2: "get_modis_data demo_ext_landsat_down demo_self ''2025-04-10'' ''2025-04-10'' demo_world
       = (Inr demo_modis, ?w1)"
    by (rule modis_miss_landsat_down) (simp add: demo_world_simps)
  have l2: "get_landsat_data demo_ext_landsat_down demo_self ''2025-04-10'' ''2025-04-10'' ?w1
       = (Inl ?el, incr_misses ?w1)"
    by (rule landsat_down_miss) (simp add: demo_world_simps update_conv' demo_keys_distinct)
  have m3: "get_modis_data demo_ext demo_self ''2025-04-10'' ''2025-04-10'' demo_world_bad_modis
       = (Inr (PInt 1), ?b1)"
    by (rule modis_hit_bad)
  have l3: "get_landsat_data demo_ext demo_self ''2025-04-10'' ''2025-04-10'' ?b1 = (Inr demo_landsat, ?b2)"
    by (rule landsat_miss) (simp add: demo_world_bad_modis_def demo_keys_distinct)
  have r3: "calculate_dust_risk demo_ext demo_self (PInt 1) demo_landsat ?b2
       = (Inl (TypeError ''int''), incr_misses ?b2)"
    by (rule risk_bad_miss)
       (simp add: demo_world_bad_modis_def update_conv' demo_keys_distinct demo_bad_keys_distinct)
  have m4: "get_modis_data demo_ext demo_self ''2025-04-10'' ''2025-04-10'' demo_world_bad_risk
       = (Inr demo_modis, ?r1)"
    by (rule modis_miss) (simp add: demo_world_bad_risk_def demo_keys_distinct)
  have l4: "get_landsat_data demo_ext demo_self ''2025-04-10'' ''2025-04-10'' ?r1 = (Inr demo_landsat, ?r2)"
    by (rule landsat_miss) (simp add: demo_world_bad_risk_def update_conv' demo_keys_distinct)
  have r4: "calculate_dust_risk demo_ext demo_self demo_modis demo_landsat ?r2
       = (Inr (PInt 1), incr_hits ?r2)"
    by (rule risk_hit_bad)
       (simp_all add: demo_world_bad_risk_def update_conv' demo_keys_distinct demo_world_simps)
  have a4: "assemble_results demo_ext 60 (now demo_world_bad_risk) demo_modis demo_landsat (PInt 1)
        (incr_hits ?r2) = Inl (TypeError ''int'')"
    by (rule assemble_bad)
  note th1 = get_current_conditions_fail_soft [OF s1 e1, where self = demo_self
      and e = ?e and w' = "incr_misses demo_world" and ?w1.0 = "incr_misses demo_world"]
  note th2 = get_current_conditions_fail_soft [OF s2 e2, where self = demo_self
      and e = ?el and modis_data = demo_modis and ?w1.0 = ?w1 and ?w2.0 = "incr_misses ?w1"]
  note th3 = get_current_conditions_fail_soft [OF s3 e3, where self = demo_self
      and e = "TypeError ''int''" and modis_data = "PInt 1" and ?w1.0 = ?b1
      and landsat_data = demo_landsat and ?w2.0 = ?b2 and ?w3.0 = "incr_misses ?b2"]
  note th4 = get_current_conditions_fail_soft [OF s4 e4, where self = demo_self
      and e = "TypeError ''int''" and modis_data = demo_modis and ?w1.0 = ?r1
      and landsat_data = demo_landsat and ?w2.0 = ?r2 and risk_data = "PInt 1"
      and ?w3.0 = "incr_hits ?r2"]
  from th1 t1 have c1: "get_current_conditions demo_ext_down demo_self 60 demo_world
       = (Inr (error_envelope ?e (incr_misses demo_world)), incr_misses demo_world)" by blast
  from th1 have c1a: "map_of (error_envelope ?e (incr_misses demo_world)) ''error''
       = Some (PStr (exn_str ?e))"
    and c1b: "map_of (error_envelope ?e (incr_misses demo_world)) ''cache_stats''
       = Some (get_stats (incr_misses demo_world))" by blast+
  have c1a': "map_of (error_envelope ?e (incr_misses demo_world)) ''error''
       = Some (PStr ''backend unavailable'')" using c1a by simp
  from th2 m2 l2 have c2: "get_current_conditions demo_ext_landsat_down demo_self 60 demo_world
       = (Inr (error_envelope ?el (incr_misses ?w1)), incr_misses ?w1)" by blast
  from th3 m3 l3 r3 have c3: "get_current_conditions demo_ext demo_self 60 demo_world_bad_modis
       = (Inr (error_envelope (TypeError ''int'') (incr_misses ?b2)), incr_misses ?b2)" by blast
  from th4 m4 l4 r4 a4 have c4: "get_current_conditions demo_ext demo_self 60 demo_world_bad_risk
       = (Inr (error_envelope (TypeError ''int'') (incr_hits ?r2)), incr_hits ?r2)" by blast
  show ?thesis
    using s1 e1 t1 m1 c1 c1a' c1b m2 l2 c2 m3 l3 r3 c3 m4 l4 r4 a4 c4 by blast
qed


section \<open>The forecast\<close>




text \<open>
  C10. If the computation of the current conditions fails while the forecast is being
  computed, \<^verbatim>\<open>generate_forecast\<close> does not raise: it returns a one-element list holding an
  error record with the keys \<^verbatim>\<open>error\<close> and \<^verbatim>\<open>reason\<close> only. The decorator stores that list
  under the forecast key, and any later call for the same day count that finds the
  entry less than 120 minutes old is served the stored error list, whatever the backend
  would answer by then.
\<close>

theorem forecast_error_cached:
  assumes "cache_key = generate_cache_key X [PStr ''generate_forecast'', self] [(''days'', PInt days)]"
    and "get X cache_key (Some 120) w = (Inr PNone, w1)"
    and "get_current_conditions_try X self 60 w1 = (Inl e, w2)"
    and "error_list = PList [PDict [(''error'', PStr ''Could not generate forecast''),
                                    (''reason'', PStr (exn_str e))]]"
    and "pickle_dumps X error_list = Some b"
    and "pickle_loads X b = Some error_list"
  shows "generate_forecast X self days w = (Inr error_list, snd (set_cache X cache_key error_list w2))
       \<and> map_of (data_dir (snd (set_cache X cache_key error_list w2))) (get_cache_path cache_key)
           = Some \<lparr>mtime = now w2, content = b\<rparr>
       \<and> (py_str X' = py_str X \<and> md5_hexdigest X' = md5_hexdigest X
            \<and> pickle_loads X' = pickle_loads X
            \<and> map_of (data_dir w') (get_cache_path cache_key) = Some \<lparr>mtime = now w2, content = b\<rparr>
            \<and> now w' - now w2 < 120 * 60
            \<longrightarrow> generate_forecast X' self days w' = (Inr error_list, incr_hits w'))"
proof (intro conjI impI)
  have c: "get_current_conditions X self 60 w1 = (Inr (error_envelope e w2), w2)"
    using assms(3) by (simp add: get_current_conditions_eq)
  have b: "generate_forecast_body X self days w1 = (Inr error_list, w2)"
    using generate_forecast_body_error [OF c, of "PStr (exn_str e)" days] assms(4)
    by (simp add: error_envelope_def)
  show "generate_forecast X self days w = (Inr error_list, snd (set_cache X cache_key error_list w2))"
    using assms(1,2) b by (simp add: generate_forecast_def cached_operation_eq)
  show "map_of (data_dir (snd (set_cache X cache_key error_list w2))) (get_cache_path cache_key)
           = Some \<lparr>mtime = now w2, content = b\<rparr>"
    using assms(5) by (simp add: set_cache_eq incr_saves_def update_conv')
next
  assume h: "py_str X' = py_str X \<and> md5_hexdigest X' = md5_hexdigest X
            \<and> pickle_loads X' = pickle_loads X
            \<and> map_of (data_dir w') (get_cache_path cache_key) = Some \<lparr>mtime = now w2, content = b\<rparr>
            \<and> now w' - now w2 < 120 * 60"
  have k: "generate_cache_key X' [PStr ''generate_forecast'', self] [(''days'', PInt days)] = cache_key"
    using h assms(1) by (simp add: generate_cache_key_def)
  have ne: "error_list \<noteq> PNone" using assms(4) by simp
  have "get X' cache_key (Some 120) w' = (Inr error_list, incr_hits w')"
    using h assms(6) by (simp add: get_eq effective_ttl_def)
  then show "generate_forecast X' self days w' = (Inr error_list, incr_hits w')"
    using ne by (simp add: generate_forecast_def cached_operation_eq k)
qed

theorem forecast_error_cached_witness:
  "demo_forecast_key
     = generate_cache_key demo_ext_down [PStr ''generate_forecast'', demo_self] [(''days'', PInt 3)]
   \<and> get demo_ext_down demo_forecast_key (Some 120) demo_world = (Inr PNone, incr_misses demo_world)
   \<and> get_current_conditions_try demo_ext_down demo_self 60 (incr_misses demo_world)
       = (Inl (RemoteError ''backend unavailable''), incr_misses (incr_misses demo_world))
   \<and> demo_error_list = PList [PDict [(''error'', PStr ''Could not generate forecast''),
                                      (''reason'', PStr (exn_str (RemoteError ''backend unavailable'')))]]
   \<and> pickle_dumps demo_ext_down demo_error_list = Some ''p3''
   \<and> pickle_loads demo_ext_down ''p3'' = Some demo_error_list
   \<and> generate_forecast demo_ext_down demo_self 3 demo_world = (Inr demo_error_list, demo_world_failed)
   \<and> py_str demo_ext = py_str demo_ext_down
   \<and> md5_hexdigest demo_ext = md5_hexdigest demo_ext_down
   \<and> pickle_loads demo_ext = pickle_loads demo_ext_down
   \<and> map_of (data_dir (tick 3600 demo_world_failed)) (get_cache_path demo_forecast_key)
       = Some \<lparr>mtime = now (incr_misses (incr_misses demo_world)), content = ''p3''\<rparr>
   \<and> now (tick 3600 demo_world_failed) - now (incr_misses (incr_misses demo_world)) < 120 * 60
   \<and> generate_forecast demo_ext demo_self 3 (tick 3600 demo_world_failed)
       = (Inr demo_error_list, incr_hits (tick 3600 demo_world_failed))"
proof -
  let ?w1 = "incr_misses demo_world"
  let ?w2 = "incr_misses (incr_misses demo_world)"
  let ?e = "RemoteError ''backend unavailable''"
  have k: "demo_forecast_key
     = generate_cache_key demo_ext_down [PStr ''generate_forecast'', demo_self] [(''days'', PInt 3)]"
    by (simp add: demo_forecast_key_def demo_keys_other_ext)
  have g: "get demo_ext_down demo_forecast_key (Some 120) demo_world = (Inr PNone, ?w1)"
    by (simp add: get_eq demo_world_simps)
  have m: "get_modis_data demo_ext_down demo_self ''2025-04-10'' ''2025-04-10'' ?w1 = (Inl ?e, ?w2)"
    by (rule modis_down_miss) (simp add: demo_world_simps)
  have t: "get_current_conditions_try demo_ext_down demo_self 60 ?w1 = (Inl ?e, ?w2)"
    using m by (simp add: get_current_conditions_try_eq demo_ext_down_simps demo_dates)
  have el: "demo_error_list = PList [PDict [(''error'', PStr ''Could not generate forecast''),
                                      (''reason'', PStr (exn_str ?e))]]"
    by (simp add: demo_error_list_def)
  have pd: "pickle_dumps demo_ext_down demo_error_list = Some ''p3''"
    by (simp add: demo_ext_down_simps demo_codebook)
  have pl: "pickle_loads demo_ext_down ''p3'' = Some demo_error_list"
    by (simp add: demo_ext_down_simps demo_codebook)
  have x1: "py_str demo_ext = py_str demo_ext_down"
    and x2: "md5_hexdigest demo_ext = md5_hexdigest demo_ext_down"
    and x3: "pickle_loads demo_ext = pickle_loads demo_ext_down"
    by (simp_all add: demo_ext_simps demo_ext_down_simps)
  note th = forecast_error_cached [OF k g t el pd pl, where X' = demo_ext
      and w' = "tick 3600 demo_world_failed"]
  from th have c1: "generate_forecast demo_ext_down demo_self 3 demo_world
      = (Inr demo_error_list, demo_world_failed)"
    by (simp add: demo_world_failed_def)
  from th have c2: "map_of (data_dir demo_world_failed) (get_cache_path demo_forecast_key)
           = Some \<lparr>mtime = now ?w2, content = ''p3''\<rparr>"
    by (simp add: demo_world_failed_def)
  have f: "map_of (data_dir (tick 3600 demo_world_failed)) (get_cache_path demo_forecast_key)
       = Some \<lparr>mtime = now ?w2, content = ''p3''\<rparr>"
    using c2 by (simp add: tick_simps)
  have n: "now (tick 3600 demo_world_failed) - now ?w2 < 120 * 60"
    by (simp add: tick_simps demo_world_failed_now demo_world_simps)
  from th x1 x2 x3 f n have c3: "generate_forecast demo_ext demo_self 3 (tick 3600 demo_world_failed)
       = (Inr demo_error_list, incr_hits (tick 3600 demo_world_failed))"
    by blast
  show ?thesis using k g t el pd pl c1 x1 x2 x3 f n c3 by blast
qed


end
